theory Spec2Isabelle
  imports Main "HOL-Library.Word"
begin

section \<open>STM32 flash low-level driver (flash.c)\<close>

text \<open>
  A shallow embedding of \<^verbatim>\<open>flash.c\<close>. All addresses and sizes are \<^verbatim>\<open>uint32_t\<close>, modelled
  as \<open>32 word\<close>: \<open>+\<close> and \<open>-\<close> wrap around and \<open>div\<close> is the unsigned division of C.
\<close>

type_synonym uint32_t = "32 word"
type_synonym uint64_t = "64 word"
type_synonym uint8_t = "8 word"

subsection \<open>Configuration\<close>

text \<open>
  The macros of \<^verbatim>\<open>flash_cfg.h\<close>, of the HAL headers (\<^verbatim>\<open>FLASH_BASE\<close>, \<^verbatim>\<open>FLASH_PAGE_NB\<close>) and the
  two enumerators of \<^verbatim>\<open>flash_status_t\<close> (declared in \<^verbatim>\<open>flash.h\<close>) are not fixed by
  \<^verbatim>\<open>flash.c\<close>; they are the fields of a configuration that every function takes.
\<close>

record flash_cfg =
  FLASH_CFG_PAGE_SIZE_BYTE :: uint32_t
  FLASH_CFG_START_ADDR :: uint32_t
  FLASH_CFG_SIZE_BYTE :: uint32_t
  FLASH_CFG_ASSERT_EN :: bool
  FLASH_CFG_DUAL_BANK_MODE_EN :: bool
  FLASH_CFG_BANK1_START_ADDR :: uint32_t
  FLASH_CFG_BANK2_START_ADDR :: uint32_t
  FLASH_BASE :: uint32_t
  FLASH_PAGE_NB :: uint32_t
  eFLASH_OK :: uint32_t
  eFLASH_ERROR :: uint32_t

subsection \<open>Page counting\<close>

text \<open>
  \<^verbatim>\<open>flash_count_page\<close> (the parameter \<^verbatim>\<open>size\<close> is written \<open>sz\<close> throughout): the
  number of the first and of the last sector of the section, and their difference plus
  one, all in 32-bit unsigned arithmetic. The page size is a constant of the build; a
  division by a page size of 0 is undefined in C (and 0 in HOL), so the properties that
  depend on the quotient assume a page size other than 0.
\<close>

definition flash_count_page :: "flash_cfg \<Rightarrow> uint32_t \<Rightarrow> uint32_t \<Rightarrow> uint32_t" where
  "flash_count_page cfg addr sz =
     (let start_sector_num = addr div FLASH_CFG_PAGE_SIZE_BYTE cfg;
          end_sector_num = (addr + sz - 1) div FLASH_CFG_PAGE_SIZE_BYTE cfg
      in (end_sector_num - start_sector_num) + 1)"


subsection \<open>The HAL and the driver state\<close>

text \<open>
  The erase descriptor of the HAL. \<^verbatim>\<open>flash.c\<close> starts it as \<^verbatim>\<open>{0}\<close> and assigns \<open>TypeErase\<close>
  and \<open>Banks\<close> before every call of \<^verbatim>\<open>HAL_FLASHEx_Erase\<close>, so only the zeros of \<open>Page\<close> and
  \<open>NbPages\<close> can reach the HAL.
\<close>

datatype FLASH_TypeErase = FLASH_TYPEERASE_PAGES | FLASH_TYPEERASE_MASSERASE

datatype FLASH_Banks = FLASH_BANK_1 | FLASH_BANK_2

record FLASH_EraseInitTypeDef =
  TypeErase :: FLASH_TypeErase
  Banks :: FLASH_Banks
  Page :: uint32_t
  NbPages :: uint32_t

definition flash_erase_zero :: FLASH_EraseInitTypeDef where
  "flash_erase_zero =
     \<lparr>TypeErase = FLASH_TYPEERASE_PAGES, Banks = FLASH_BANK_1, Page = 0, NbPages = 0\<rparr>"

text \<open>
  Every use of the hardware is an event: the clock macros, a poll of the busy flag, the
  HAL calls with their arguments, and a 32-bit load from the memory-mapped flash.
\<close>

datatype hal_call =
    HAL_RCC_FLASH_CLK_ENABLE
  | HAL_RCC_FLASH_CLK_DISABLE
  | HAL_FLASH_GET_FLAG_BSY
  | HAL_FLASH_Unlock
  | HAL_FLASH_Lock
  | HAL_FLASHEx_Erase FLASH_EraseInitTypeDef
  | HAL_FLASH_Program uint32_t uint64_t
  | Flash_load uint32_t

text \<open>
  The hardware is outside the driver. It answers each call from the calls made so far:
  \<open>hal_ok\<close> is whether a HAL function returns \<^verbatim>\<open>HAL_OK\<close>, \<open>bsy_flag\<close> whether the busy flag
  is set at a poll, \<open>flash_mem\<close> the word a load reads.
\<close>

record hal =
  hal_ok :: "hal_call list \<Rightarrow> hal_call \<Rightarrow> bool"
  bsy_flag :: "hal_call list \<Rightarrow> bool"
  flash_mem :: "hal_call list \<Rightarrow> uint32_t \<Rightarrow> uint32_t"

text \<open>The driver's only variable, \<^verbatim>\<open>gb_is_init\<close>, and the log of the hardware events.\<close>

record flash_state =
  gb_is_init :: bool
  hal_log :: "hal_call list"

definition hal_do :: "hal_call \<Rightarrow> flash_state \<Rightarrow> flash_state" where
  "hal_do c s = s\<lparr>hal_log := hal_log s @ [c]\<rparr>"

text \<open>A call either returns a value in a new state, or stops at a failed assertion.\<close>

datatype 'a result = Assert_failed flash_state | Return 'a flash_state

text \<open>
  Modelled from the spec: \<^verbatim>\<open>FLASH_ASSERT\<close> expands to \<^verbatim>\<open>PROJ_CFG_ASSERT\<close>, a macro of the
  project header \<^verbatim>\<open>proj_cfg.h\<close> that is not part of the repository, when
  \<^verbatim>\<open>FLASH_CFG_ASSERT_EN\<close> is 1, and to the empty statement otherwise. The spec has a
  violated assertion abort when assertions are enabled. \<open>FLASH_ASSERT cfg x\<close> is true
  when execution goes on past \<^verbatim>\<open>FLASH_ASSERT(x)\<close>.
\<close>

definition FLASH_ASSERT :: "flash_cfg \<Rightarrow> bool \<Rightarrow> bool" where
  "FLASH_ASSERT cfg x = (if FLASH_CFG_ASSERT_EN cfg then x else True)"

subsection \<open>Erase, single bank\<close>

text \<open>
  \<^verbatim>\<open>flash_erase_single_bank\<close>. On a HAL error the source assigns \<^verbatim>\<open>false\<close>, the integer 0,
  to the status. (The first revision of the file has the same statements inside
  \<^verbatim>\<open>flash_erase\<close>.)
\<close>

definition flash_erase_single_bank ::
  "flash_cfg \<Rightarrow> hal \<Rightarrow> uint32_t \<Rightarrow> uint32_t \<Rightarrow> flash_state \<Rightarrow> uint32_t result" where
  "flash_erase_single_bank cfg h addr sz s =
     (let start_page = (addr - FLASH_BASE cfg) div FLASH_CFG_PAGE_SIZE_BYTE cfg;
          num_of_pages = flash_count_page cfg addr sz
      in if \<not> FLASH_ASSERT cfg (num_of_pages \<le> FLASH_PAGE_NB cfg) then Assert_failed s
         else
           let flash_erase = \<lparr>TypeErase = FLASH_TYPEERASE_PAGES, Banks = FLASH_BANK_1,
                              Page = start_page, NbPages = num_of_pages\<rparr>;
               call = HAL_FLASHEx_Erase flash_erase
           in Return (if hal_ok h (hal_log s) call then eFLASH_OK cfg else 0) (hal_do call s))"

subsection \<open>Erase, dual bank\<close>

datatype flash_bank = eFLASH_BANK_1 | eFLASH_BANK_2

record flash_bank_data_t =
  bd_addr :: uint32_t
  bd_size :: uint32_t

definition gu32_flash_base :: "flash_cfg \<Rightarrow> flash_bank \<Rightarrow> uint32_t" where
  "gu32_flash_base cfg bank =
     (case bank of eFLASH_BANK_1 \<Rightarrow> FLASH_CFG_BANK1_START_ADDR cfg
                 | eFLASH_BANK_2 \<Rightarrow> FLASH_CFG_BANK2_START_ADDR cfg)"

text \<open>
  The first half of \<^verbatim>\<open>flash_erase_dual_bank\<close>: the array \<^verbatim>\<open>bank_data\<close>, zero at the start,
  after the section has been divided between the banks.
\<close>

definition bank_data_split :: "flash_cfg \<Rightarrow> uint32_t \<Rightarrow> uint32_t \<Rightarrow> flash_bank \<Rightarrow> flash_bank_data_t" where
  "bank_data_split cfg addr sz =
     (let bank_data = (\<lambda>bank. \<lparr>bd_addr = 0, bd_size = 0\<rparr>)
      in if addr < FLASH_CFG_BANK2_START_ADDR cfg then
           let bank_data = bank_data (eFLASH_BANK_1 := bank_data eFLASH_BANK_1 \<lparr>bd_addr := addr\<rparr>)
           in if addr + sz < FLASH_CFG_BANK2_START_ADDR cfg then
                bank_data (eFLASH_BANK_1 := bank_data eFLASH_BANK_1 \<lparr>bd_size := sz\<rparr>)
              else
                let bank_data = bank_data (eFLASH_BANK_1 := bank_data eFLASH_BANK_1
                                  \<lparr>bd_size := FLASH_CFG_BANK2_START_ADDR cfg - addr\<rparr>);
                    bank_data = bank_data (eFLASH_BANK_2 := bank_data eFLASH_BANK_2
                                  \<lparr>bd_addr := FLASH_CFG_BANK2_START_ADDR cfg\<rparr>)
                in bank_data (eFLASH_BANK_2 := bank_data eFLASH_BANK_2
                                  \<lparr>bd_size := sz - bd_size (bank_data eFLASH_BANK_1)\<rparr>)
         else
           let bank_data = bank_data (eFLASH_BANK_2 := bank_data eFLASH_BANK_2 \<lparr>bd_addr := addr\<rparr>)
           in bank_data (eFLASH_BANK_2 := bank_data eFLASH_BANK_2 \<lparr>bd_size := sz\<rparr>))"

text \<open>The assignments to \<^verbatim>\<open>flash_erase\<close> in the loop: type of erase, bank, and the pages
  only for a page erase.\<close>

definition setup_flash_erase ::
  "flash_cfg \<Rightarrow> flash_bank \<Rightarrow> uint32_t \<Rightarrow> uint32_t \<Rightarrow> FLASH_EraseInitTypeDef \<Rightarrow> FLASH_EraseInitTypeDef" where
  "setup_flash_erase cfg bank start_page num_of_pages flash_erase =
     (let flash_erase = flash_erase \<lparr>TypeErase :=
            (if num_of_pages = FLASH_PAGE_NB cfg then FLASH_TYPEERASE_MASSERASE
             else FLASH_TYPEERASE_PAGES)\<rparr>;
          flash_erase = flash_erase \<lparr>Banks :=
            (if bank = eFLASH_BANK_1 then FLASH_BANK_1 else FLASH_BANK_2)\<rparr>
      in if TypeErase flash_erase = FLASH_TYPEERASE_PAGES
         then flash_erase \<lparr>Page := start_page, NbPages := num_of_pages\<rparr>
         else flash_erase)"

text \<open>The body of the loop over the banks; the locals \<^verbatim>\<open>status\<close> and \<^verbatim>\<open>flash_erase\<close> live
  across the iterations.\<close>

definition erase_bank ::
  "flash_cfg \<Rightarrow> hal \<Rightarrow> (flash_bank \<Rightarrow> flash_bank_data_t) \<Rightarrow> flash_bank \<Rightarrow>
   uint32_t \<Rightarrow> FLASH_EraseInitTypeDef \<Rightarrow> flash_state \<Rightarrow> (uint32_t \<times> FLASH_EraseInitTypeDef) result" where
  "erase_bank cfg h bank_data bank status flash_erase s =
     (if bd_size (bank_data bank) > 0 then
        let start_page = (bd_addr (bank_data bank) - gu32_flash_base cfg bank)
                           div FLASH_CFG_PAGE_SIZE_BYTE cfg;
            num_of_pages = flash_count_page cfg (bd_addr (bank_data bank)) (bd_size (bank_data bank))
        in if \<not> FLASH_ASSERT cfg (num_of_pages \<le> FLASH_PAGE_NB cfg) then Assert_failed s
           else
             let flash_erase = setup_flash_erase cfg bank start_page num_of_pages flash_erase;
                 call = HAL_FLASHEx_Erase flash_erase
             in Return (if hal_ok h (hal_log s) call then status else 0, flash_erase)
                       (hal_do call s)
      else Return (status, flash_erase) s)"

fun erase_banks ::
  "flash_cfg \<Rightarrow> hal \<Rightarrow> (flash_bank \<Rightarrow> flash_bank_data_t) \<Rightarrow> flash_bank list \<Rightarrow>
   uint32_t \<Rightarrow> FLASH_EraseInitTypeDef \<Rightarrow> flash_state \<Rightarrow> (uint32_t \<times> FLASH_EraseInitTypeDef) result" where
  "erase_banks cfg h bank_data [] status flash_erase s = Return (status, flash_erase) s"
| "erase_banks cfg h bank_data (bank # banks) status flash_erase s =
     (case erase_bank cfg h bank_data bank status flash_erase s of
        Assert_failed s' \<Rightarrow> Assert_failed s'
      | Return (status', flash_erase') s' \<Rightarrow>
          erase_banks cfg h bank_data banks status' flash_erase' s')"

definition flash_erase_dual_bank ::
  "flash_cfg \<Rightarrow> hal \<Rightarrow> uint32_t \<Rightarrow> uint32_t \<Rightarrow> flash_state \<Rightarrow> uint32_t result" where
  "flash_erase_dual_bank cfg h addr sz s =
     (case erase_banks cfg h (bank_data_split cfg addr sz) [eFLASH_BANK_1, eFLASH_BANK_2]
             (eFLASH_OK cfg) flash_erase_zero s of
        Assert_failed s' \<Rightarrow> Assert_failed s'
      | Return (status, flash_erase) s' \<Rightarrow> Return status s')"


subsection \<open>Initialisation\<close>

text \<open>
  The busy-wait of \<^verbatim>\<open>flash_init\<close>, \<^verbatim>\<open>while(__HAL_FLASH_GET_FLAG(FLASH_FLAG_BSY) != RESET);\<close>
  polls until the flag is clear. It has no bound: where the flag never clears the loop
  does not return, which is the value \<open>None\<close>.
\<close>

partial_function (option) wait_flash_ready :: "hal \<Rightarrow> flash_state \<Rightarrow> flash_state option" where
  "wait_flash_ready h s =
     (if bsy_flag h (hal_log s) then wait_flash_ready h (hal_do HAL_FLASH_GET_FLAG_BSY s)
      else Some (hal_do HAL_FLASH_GET_FLAG_BSY s))"

definition flash_init :: "flash_cfg \<Rightarrow> hal \<Rightarrow> flash_state \<Rightarrow> (uint32_t \<times> flash_state) option" where
  "flash_init cfg h s =
     (if \<not> gb_is_init s then
        (case wait_flash_ready h (hal_do HAL_RCC_FLASH_CLK_ENABLE s) of
           None \<Rightarrow> None
         | Some s1 \<Rightarrow>
             if \<not> hal_ok h (hal_log s1) HAL_FLASH_Unlock
             then Some (eFLASH_ERROR cfg, hal_do HAL_FLASH_Unlock s1)
             else Some (eFLASH_OK cfg, (hal_do HAL_FLASH_Unlock s1) \<lparr>gb_is_init := True\<rparr>))
      else Some (eFLASH_OK cfg, s))"

definition flash_deinit :: "flash_cfg \<Rightarrow> hal \<Rightarrow> flash_state \<Rightarrow> uint32_t \<times> flash_state" where
  "flash_deinit cfg h s =
     (if gb_is_init s then
        if \<not> hal_ok h (hal_log s) HAL_FLASH_Lock
        then (eFLASH_ERROR cfg, hal_do HAL_FLASH_Lock s)
        else (eFLASH_OK cfg,
              (hal_do HAL_RCC_FLASH_CLK_DISABLE (hal_do HAL_FLASH_Lock s)) \<lparr>gb_is_init := False\<rparr>)
      else (eFLASH_OK cfg, s))"

text \<open>
  \<^verbatim>\<open>flash_is_init\<close>: the argument says whether the pointer \<^verbatim>\<open>p_is_init\<close> is non-null; the
  result carries the value stored through it, if any.
\<close>

definition flash_is_init :: "flash_cfg \<Rightarrow> bool \<Rightarrow> flash_state \<Rightarrow> (uint32_t \<times> bool option) result" where
  "flash_is_init cfg p_is_init_nonnull s =
     (if \<not> FLASH_ASSERT cfg p_is_init_nonnull then Assert_failed s
      else if p_is_init_nonnull then Return (eFLASH_OK cfg, Some (gb_is_init s)) s
      else Return (eFLASH_ERROR cfg, None) s)"

subsection \<open>Write, read and erase\<close>

text \<open>
  The check of the section against the user flash region, written out alike in
  \<^verbatim>\<open>flash_write\<close>, \<^verbatim>\<open>flash_read\<close> and \<^verbatim>\<open>flash_erase\<close>, in the assertion and in the condition:
  \<^verbatim>\<open>( addr >= FLASH_CFG_START_ADDR ) && ( size <= FLASH_CFG_SIZE_BYTE )\<close>.
\<close>

definition flash_region_check :: "flash_cfg \<Rightarrow> uint32_t \<Rightarrow> uint32_t \<Rightarrow> bool" where
  "flash_region_check cfg addr sz =
     (addr \<ge> FLASH_CFG_START_ADDR cfg \<and> sz \<le> FLASH_CFG_SIZE_BYTE cfg)"

text \<open>
  A data pointer is \<open>None\<close> when null, and otherwise the bytes of memory from the pointer
  on. \<^verbatim>\<open>memcpy\<close> moves the bytes of a double word or of a word in little-endian order.
\<close>

type_synonym buffer = "nat \<Rightarrow> uint8_t"

definition load_u64 :: "buffer \<Rightarrow> nat \<Rightarrow> uint64_t" where
  "load_u64 p_data i = word_rcat (rev (map (\<lambda>k. p_data (i + k)) [0..<8]))"

definition store_u32 :: "buffer \<Rightarrow> nat \<Rightarrow> uint32_t \<Rightarrow> buffer" where
  "store_u32 p_data i w =
     (\<lambda>j. if i \<le> j \<and> j < i + 4 then ucast (drop_bit (8 * (j - i)) w) else p_data j)"

text \<open>
  The loop of \<^verbatim>\<open>flash_write\<close>, one double word at a time, left at the first HAL error. The
  counter is a \<^verbatim>\<open>uint32_t\<close> that steps by 8 and may wrap around before it reaches \<open>sz\<close>.
\<close>

partial_function (option) write_loop ::
  "flash_cfg \<Rightarrow> hal \<Rightarrow> uint32_t \<Rightarrow> uint32_t \<Rightarrow> buffer \<Rightarrow> uint32_t \<Rightarrow> flash_state
   \<Rightarrow> (uint32_t \<times> flash_state) option" where
  "write_loop cfg h addr sz p_data dword s =
     (if dword < sz then
        if \<not> hal_ok h (hal_log s) (HAL_FLASH_Program (addr + dword) (load_u64 p_data (unat dword)))
        then Some (eFLASH_ERROR cfg,
                   hal_do (HAL_FLASH_Program (addr + dword) (load_u64 p_data (unat dword))) s)
        else write_loop cfg h addr sz p_data (dword + 8)
               (hal_do (HAL_FLASH_Program (addr + dword) (load_u64 p_data (unat dword))) s)
      else Some (eFLASH_OK cfg, s))"

definition flash_write ::
  "flash_cfg \<Rightarrow> hal \<Rightarrow> uint32_t \<Rightarrow> uint32_t \<Rightarrow> buffer option \<Rightarrow> flash_state
   \<Rightarrow> uint32_t result option" where
  "flash_write cfg h addr sz p_data s =
     (if \<not> FLASH_ASSERT cfg (gb_is_init s) then Some (Assert_failed s)
      else if \<not> FLASH_ASSERT cfg (flash_region_check cfg addr sz) then Some (Assert_failed s)
      else if \<not> FLASH_ASSERT cfg (p_data \<noteq> None) then Some (Assert_failed s)
      else if gb_is_init s \<and> flash_region_check cfg addr sz \<and> p_data \<noteq> None then
        (case write_loop cfg h addr sz (the p_data) 0 s of
           None \<Rightarrow> None
         | Some (status, s') \<Rightarrow> Some (Return status s'))
      else Some (Return (eFLASH_ERROR cfg) s))"

text \<open>The loop of \<^verbatim>\<open>flash_read\<close>, one word at a time; it has no way out but its end.\<close>

partial_function (option) read_loop ::
  "hal \<Rightarrow> uint32_t \<Rightarrow> uint32_t \<Rightarrow> buffer \<Rightarrow> uint32_t \<Rightarrow> flash_state
   \<Rightarrow> (buffer \<times> flash_state) option" where
  "read_loop h addr sz p_data word s =
     (if word < sz then
        read_loop h addr sz
          (store_u32 p_data (unat word) (flash_mem h (hal_log s) (addr + word)))
          (word + 4) (hal_do (Flash_load (addr + word)) s)
      else Some (p_data, s))"

definition flash_read ::
  "flash_cfg \<Rightarrow> hal \<Rightarrow> uint32_t \<Rightarrow> uint32_t \<Rightarrow> buffer option \<Rightarrow> flash_state
   \<Rightarrow> (uint32_t \<times> buffer option) result option" where
  "flash_read cfg h addr sz p_data s =
     (if \<not> FLASH_ASSERT cfg (gb_is_init s) then Some (Assert_failed s)
      else if \<not> FLASH_ASSERT cfg (flash_region_check cfg addr sz) then Some (Assert_failed s)
      else if \<not> FLASH_ASSERT cfg (p_data \<noteq> None) then Some (Assert_failed s)
      else if gb_is_init s \<and> flash_region_check cfg addr sz \<and> p_data \<noteq> None then
        (case read_loop h addr sz (the p_data) 0 s of
           None \<Rightarrow> None
         | Some (p_data', s') \<Rightarrow> Some (Return (eFLASH_OK cfg, Some p_data') s'))
      else Some (Return (eFLASH_ERROR cfg, p_data) s))"

text \<open>\<^verbatim>\<open>flash_erase\<close>; the preprocessor chooses the single-bank or the dual-bank erase.\<close>

definition flash_erase ::
  "flash_cfg \<Rightarrow> hal \<Rightarrow> uint32_t \<Rightarrow> uint32_t \<Rightarrow> flash_state \<Rightarrow> uint32_t result" where
  "flash_erase cfg h addr sz s =
     (if \<not> FLASH_ASSERT cfg (gb_is_init s) then Assert_failed s
      else if \<not> FLASH_ASSERT cfg (flash_region_check cfg addr sz) then Assert_failed s
      else if gb_is_init s \<and> flash_region_check cfg addr sz then
        (if \<not> FLASH_CFG_DUAL_BANK_MODE_EN cfg then flash_erase_single_bank cfg h addr sz s
         else flash_erase_dual_bank cfg h addr sz s)
      else Return (eFLASH_ERROR cfg) s)"


subsection \<open>The specification's reference definitions\<close>

text \<open>
  \<open>page_count_for_range\<close> follows the words of the specification (AddressMath), on
  unbounded natural numbers: \<open>end_page = (addr + size - 1) / page_size\<close>,
  \<open>start_page = addr / page_size\<close>, result \<open>end_page - start_page + 1\<close>.
\<close>

definition page_count_for_range :: "nat \<Rightarrow> nat \<Rightarrow> nat \<Rightarrow> nat" where
  "page_count_for_range addr sz page_size =
     (addr + sz - 1) div page_size - addr div page_size + 1"

text \<open>
  \<open>region_validate\<close> follows the words of the specification (RegionGuard), on unbounded
  natural numbers: \<open>addr \<ge> region.start_address\<close> and
  \<open>addr + size \<le> region.start_address + region.size_bytes\<close>.
\<close>

definition region_validate :: "flash_cfg \<Rightarrow> uint32_t \<Rightarrow> uint32_t \<Rightarrow> bool" where
  "region_validate cfg addr sz =
     (unat (FLASH_CFG_START_ADDR cfg) \<le> unat addr \<and>
      unat addr + unat sz \<le> unat (FLASH_CFG_START_ADDR cfg) + unat (FLASH_CFG_SIZE_BYTE cfg))"

subsection \<open>Concrete configurations and hardware\<close>

text \<open>
  A single-bank part with 128 pages of 2 KiB from \<open>0x08000000\<close>, and a dual-bank part with
  two such banks, the second from \<open>0x08040000\<close>; the user region is the whole flash and
  assertions are compiled out.
\<close>

definition cfg_single :: flash_cfg where
  "cfg_single =
     \<lparr>FLASH_CFG_PAGE_SIZE_BYTE = 0x800, FLASH_CFG_START_ADDR = 0x08000000,
      FLASH_CFG_SIZE_BYTE = 0x40000, FLASH_CFG_ASSERT_EN = False,
      FLASH_CFG_DUAL_BANK_MODE_EN = False,
      FLASH_CFG_BANK1_START_ADDR = 0x08000000, FLASH_CFG_BANK2_START_ADDR = 0x08040000,
      FLASH_BASE = 0x08000000, FLASH_PAGE_NB = 128, eFLASH_OK = 0, eFLASH_ERROR = 1\<rparr>"

definition cfg_dual :: flash_cfg where
  "cfg_dual =
     \<lparr>FLASH_CFG_PAGE_SIZE_BYTE = 0x800, FLASH_CFG_START_ADDR = 0x08000000,
      FLASH_CFG_SIZE_BYTE = 0x80000, FLASH_CFG_ASSERT_EN = False,
      FLASH_CFG_DUAL_BANK_MODE_EN = True,
      FLASH_CFG_BANK1_START_ADDR = 0x08000000, FLASH_CFG_BANK2_START_ADDR = 0x08040000,
      FLASH_BASE = 0x08000000, FLASH_PAGE_NB = 128, eFLASH_OK = 0, eFLASH_ERROR = 1\<rparr>"

text \<open>
  The single-bank part with the user region of the template \<^verbatim>\<open>flash_cfg.h\<close>: one page at
  \<open>0x0801F000\<close>.
\<close>

definition cfg_template :: flash_cfg where
  "cfg_template =
     cfg_single \<lparr>FLASH_CFG_START_ADDR := 0x0801F000, FLASH_CFG_SIZE_BYTE := 0x800\<rparr>"

text \<open>The single-bank part built with assertions enabled.\<close>

definition cfg_debug :: flash_cfg where
  "cfg_debug = cfg_single \<lparr>FLASH_CFG_ASSERT_EN := True\<rparr>"

text \<open>Hardware on which every call succeeds and the busy flag is clear after two polls.\<close>

definition hal_good :: hal where
  "hal_good =
     \<lparr>hal_ok = (\<lambda>log c. True),
      bsy_flag = (\<lambda>log. length log < 3),
      flash_mem = (\<lambda>log a. 0xFFFFFFFF)\<rparr>"

text \<open>Hardware on which every erase fails, and hardware on which unlock and lock fail.\<close>

definition hal_erase_fails :: hal where
  "hal_erase_fails =
     \<lparr>hal_ok = (\<lambda>log c. case c of HAL_FLASHEx_Erase e \<Rightarrow> False | _ \<Rightarrow> True),
      bsy_flag = (\<lambda>log. False),
      flash_mem = (\<lambda>log a. 0xFFFFFFFF)\<rparr>"

definition hal_lock_fails :: hal where
  "hal_lock_fails =
     \<lparr>hal_ok = (\<lambda>log c. c \<noteq> HAL_FLASH_Unlock \<and> c \<noteq> HAL_FLASH_Lock),
      bsy_flag = (\<lambda>log. False),
      flash_mem = (\<lambda>log a. 0xFFFFFFFF)\<rparr>"

text \<open>A data buffer of zero bytes.\<close>

definition zero_buffer :: buffer where
  "zero_buffer = (\<lambda>i. 0)"

definition s_reset :: flash_state where
  "s_reset = \<lparr>gb_is_init = False, hal_log = []\<rparr>"

definition s_ready :: flash_state where
  "s_ready = \<lparr>gb_is_init = True, hal_log = []\<rparr>"


section \<open>Properties\<close>

subsection \<open>Page counting\<close>

lemma unat_last_byte:
  assumes sz: "sz \<noteq> (0::32 word)"
    and nov: "unat addr + unat sz \<le> 2 ^ 32"
  shows "unat (addr + sz - 1) = unat addr + unat sz - 1"
proof -
  have pos: "0 < unat sz" using sz by (simp add: unat_gt_0)
  have m1: "unat (sz - 1) = unat sz - 1" using sz by (simp add: unat_minus_one)
  have "unat addr + unat (sz - 1) < 2 ^ LENGTH(32)" using nov pos m1 by simp
  then have "unat (addr + (sz - 1)) = unat addr + unat (sz - 1)"
    by (simp only: unat_add_lem)
  moreover have "addr + sz - 1 = addr + (sz - 1)" by simp
  ultimately have "unat (addr + sz - 1) = unat addr + unat (sz - 1)" by (simp only:)
  then show ?thesis using m1 pos by simp
qed

lemma page_count_bound:
  fixes a s P :: nat
  assumes P: "0 < P" and s: "0 < s" and nov: "a + s \<le> 2 ^ 32" and sb: "s < 2 ^ 32"
  shows "(a + s - 1) div P - a div P + 1 < 2 ^ 32"
proof (cases "P = 1")
  case True
  then show ?thesis using s sb by simp
next
  case False
  then have "2 \<le> P" using P by simp
  then have "(a + s - 1) div P \<le> (a + s - 1) div 2"
    by (simp add: div_le_mono2)
  also have "\<dots> < 2 ^ 31" using nov s by simp
  finally show ?thesis by simp
qed

lemma unat_flash_count_page:
  assumes P: "FLASH_CFG_PAGE_SIZE_BYTE cfg \<noteq> 0" and sz: "sz \<noteq> 0"
    and nov: "unat addr + unat sz \<le> 2 ^ 32"
  shows "unat (flash_count_page cfg addr sz) =
     page_count_for_range (unat addr) (unat sz) (unat (FLASH_CFG_PAGE_SIZE_BYTE cfg))"
proof -
  let ?P = "FLASH_CFG_PAGE_SIZE_BYTE cfg"
  let ?e = "(addr + sz - 1) div ?P" and ?s = "addr div ?P"
  have Ppos: "0 < unat ?P" using P by (simp add: unat_gt_0)
  have spos: "0 < unat sz" using sz by (simp add: unat_gt_0)
  have ue: "unat ?e = (unat addr + unat sz - 1) div unat ?P"
    by (simp add: unat_div unat_last_byte [OF sz nov])
  have us: "unat ?s = unat addr div unat ?P" by (simp add: unat_div)
  have le: "unat ?s \<le> unat ?e" unfolding ue us using spos by (intro div_le_mono) simp
  then have "?s \<le> ?e" by (simp add: word_le_nat_alt)
  then have ud: "unat (?e - ?s) = unat ?e - unat ?s" by (rule unat_sub)
  have "unat ?e - unat ?s + 1 < 2 ^ LENGTH(32)"
    unfolding ue us using page_count_bound [OF Ppos spos nov] unsigned_less [of sz, where 'a=nat] by simp
  then have "unat ((?e - ?s) + 1) = unat ?e - unat ?s + 1"
    using ud by (simp add: unat_add_lem [THEN iffD1])
  then show ?thesis by (simp add: flash_count_page_def page_count_for_range_def Let_def ue us)
qed

lemma one_page_nat:
  fixes a s P :: nat
  assumes "0 < P" "0 < s" "a + s \<le> (a div P + 1) * P"
  shows "page_count_for_range a s P = 1"
proof -
  have "a + s - 1 < (a div P + 1) * P" using assms by simp
  then have "(a + s - 1) div P < a div P + 1"
    using assms(1) by (simp add: div_less_iff_less_mult)
  moreover have "a div P \<le> (a + s - 1) div P" using assms(2) by (intro div_le_mono) simp
  ultimately show ?thesis by (simp add: page_count_for_range_def)
qed

lemma aligned_nat:
  fixes a s P :: nat
  assumes "0 < P" "0 < s" "a mod P = 0" "s mod P = 0"
  shows "page_count_for_range a s P = s div P"
proof -
  obtain k where k: "a = P * k" using assms(3) by (auto dest: mod_0_imp_dvd)
  obtain m where m: "s = P * m" using assms(4) by (auto dest: mod_0_imp_dvd)
  have mpos: "0 < m" using assms(2) m by (cases m) auto
  then obtain j where j: "k + m = Suc j" by (cases "k + m") auto
  have "a + s = P * Suc j" using j by (simp add: k m distrib_left [symmetric] del: mult_Suc_right)
  then have "a + s - 1 = j * P + (P - 1)" using assms(1) by (cases P) (simp_all add: algebra_simps)
  moreover have "(j * P + (P - 1)) div P = j"
  proof -
    have r: "r < P \<Longrightarrow> (j * P + r) div P = j" for r by simp
    have "P - 1 < P" using assms(1) by simp
    then show ?thesis by (rule r)
  qed
  ultimately have "(a + s - 1) div P = j" by (simp only:)
  moreover have "a div P = k" using assms(1) k by simp
  moreover have "s div P = m" using assms(1) m by simp
  moreover have "j - k + 1 = m" using j mpos by arith
  ultimately show ?thesis by (simp add: page_count_for_range_def)
qed

text \<open>
  Claim C5, as stated, fails where the section runs past the end of the 32-bit address
  space: with 2 KiB pages, the address \<open>0xFFFFF800\<close> and the size \<open>0x1000\<close>, the formula
  \<open>end_page - start_page + 1\<close> of the specification gives 2, but \<open>addr + size - 1\<close> wraps
  around to \<open>0x7FF\<close> in the code and the count is \<open>0xFFE00002\<close>.
\<close>

theorem flash_count_page_formula_counterexample:
  "(0x1000 :: uint32_t) \<noteq> 0 \<and>
   page_count_for_range (unat (0xFFFFF800 :: uint32_t)) (unat (0x1000 :: uint32_t))
      (unat (FLASH_CFG_PAGE_SIZE_BYTE cfg_single)) = 2 \<and>
   flash_count_page cfg_single 0xFFFFF800 0x1000 = 0xFFE00002 \<and>
   unat (flash_count_page cfg_single 0xFFFFF800 0x1000) \<noteq>
     page_count_for_range (unat (0xFFFFF800 :: uint32_t)) (unat (0x1000 :: uint32_t))
       (unat (FLASH_CFG_PAGE_SIZE_BYTE cfg_single))"
  by (simp add: cfg_single_def flash_count_page_def page_count_for_range_def)

text \<open>
  Claim C5, amended. For every address and every size of at least 1 with \<open>addr + size\<close>
  at most \<open>2^32\<close>, \<open>flash_count_page\<close> returns exactly \<open>end_page - start_page + 1\<close> with
  \<open>end_page = (addr + size - 1) / page_size\<close> and \<open>start_page = addr / page_size\<close>, the
  number \<open>page_count_for_range\<close> of the specification; consequently a section that lies
  inside one page gives 1.
\<close>

theorem flash_count_page_formula:
  assumes P: "FLASH_CFG_PAGE_SIZE_BYTE cfg \<noteq> 0" and sz: "sz \<noteq> 0"
    and nov: "unat addr + unat sz \<le> 2 ^ 32"
  shows "unat (flash_count_page cfg addr sz) =
           (unat addr + unat sz - 1) div unat (FLASH_CFG_PAGE_SIZE_BYTE cfg)
             - unat addr div unat (FLASH_CFG_PAGE_SIZE_BYTE cfg) + 1
         \<and> unat (flash_count_page cfg addr sz) =
             page_count_for_range (unat addr) (unat sz) (unat (FLASH_CFG_PAGE_SIZE_BYTE cfg))
         \<and> (unat addr + unat sz \<le>
               (unat addr div unat (FLASH_CFG_PAGE_SIZE_BYTE cfg) + 1)
                 * unat (FLASH_CFG_PAGE_SIZE_BYTE cfg) \<longrightarrow>
             flash_count_page cfg addr sz = 1)"
proof (intro conjI impI)
  have n: "unat (flash_count_page cfg addr sz) =
      page_count_for_range (unat addr) (unat sz) (unat (FLASH_CFG_PAGE_SIZE_BYTE cfg))"
    using P sz nov by (rule unat_flash_count_page)
  then show "unat (flash_count_page cfg addr sz) =
      (unat addr + unat sz - 1) div unat (FLASH_CFG_PAGE_SIZE_BYTE cfg)
        - unat addr div unat (FLASH_CFG_PAGE_SIZE_BYTE cfg) + 1"
    by (simp add: page_count_for_range_def)
  show "unat (flash_count_page cfg addr sz) =
      page_count_for_range (unat addr) (unat sz) (unat (FLASH_CFG_PAGE_SIZE_BYTE cfg))"
    by (rule n)
  assume one: "unat addr + unat sz \<le>
      (unat addr div unat (FLASH_CFG_PAGE_SIZE_BYTE cfg) + 1) * unat (FLASH_CFG_PAGE_SIZE_BYTE cfg)"
  have "page_count_for_range (unat addr) (unat sz) (unat (FLASH_CFG_PAGE_SIZE_BYTE cfg)) = 1"
    using P sz one by (intro one_page_nat) (simp_all add: unat_gt_0)
  then show "flash_count_page cfg addr sz = 1" using n by (simp add: word_unat_eq_iff)
qed

theorem flash_count_page_formula_witness:
  "unat (flash_count_page cfg_single 0x0801F000 0x800) =
     (0x0801F000 + 0x800 - 1) div 0x800 - 0x0801F000 div 0x800 + 1 \<and>
   unat (flash_count_page cfg_single 0x0801F000 0x800) =
     page_count_for_range 0x0801F000 0x800 0x800 \<and>
   flash_count_page cfg_single 0x0801F000 0x800 = 1"
proof -
  have P: "FLASH_CFG_PAGE_SIZE_BYTE cfg_single \<noteq> 0" by (simp add: cfg_single_def)
  have sz: "(0x800 :: uint32_t) \<noteq> 0" by simp
  have nov: "unat (0x0801F000 :: uint32_t) + unat (0x800 :: uint32_t) \<le> 2 ^ 32" by simp
  show ?thesis
    using flash_count_page_formula [OF P sz nov] by (simp add: cfg_single_def)
qed

text \<open>
  Claim C6, as stated, fails where the section runs past the end of the 32-bit address
  space: with 2 KiB pages, the page-aligned address \<open>0xFFFFF800\<close> and the size \<open>0x1000\<close>
  (two pages), \<open>addr + size - 1\<close> wraps around to \<open>0x7FF\<close> and the count is
  \<open>0xFFE00002\<close>, not 2.
\<close>

theorem flash_count_page_aligned_counterexample:
  "(0xFFFFF800 :: uint32_t) mod FLASH_CFG_PAGE_SIZE_BYTE cfg_single = 0 \<and>
   (0x1000 :: uint32_t) mod FLASH_CFG_PAGE_SIZE_BYTE cfg_single = 0 \<and>
   (0x1000 :: uint32_t) \<noteq> 0 \<and>
   flash_count_page cfg_single 0xFFFFF800 0x1000 = 0xFFE00002 \<and>
   flash_count_page cfg_single 0xFFFFF800 0x1000 \<noteq> 0x1000 div FLASH_CFG_PAGE_SIZE_BYTE cfg_single"
  by (simp add: cfg_single_def flash_count_page_def)

text \<open>
  Claim C6, amended. For every page-aligned address and every size that is a positive
  exact multiple of the page size \<open>P\<close>, with \<open>addr + size\<close> at most \<open>2^32\<close>,
  \<open>flash_count_page\<close> returns exactly \<open>size / P\<close>.
\<close>

theorem flash_count_page_aligned:
  assumes P: "FLASH_CFG_PAGE_SIZE_BYTE cfg \<noteq> 0"
    and al: "addr mod FLASH_CFG_PAGE_SIZE_BYTE cfg = 0"
    and mu: "sz mod FLASH_CFG_PAGE_SIZE_BYTE cfg = 0" and sz: "sz \<noteq> 0"
    and nov: "unat addr + unat sz \<le> 2 ^ 32"
  shows "flash_count_page cfg addr sz = sz div FLASH_CFG_PAGE_SIZE_BYTE cfg"
proof -
  let ?P = "FLASH_CFG_PAGE_SIZE_BYTE cfg"
  have "unat (addr mod ?P) = 0" "unat (sz mod ?P) = 0" using al mu by simp_all
  then have m: "unat addr mod unat ?P = 0" "unat sz mod unat ?P = 0"
    by (simp_all add: unat_mod)
  have "unat (flash_count_page cfg addr sz) = page_count_for_range (unat addr) (unat sz) (unat ?P)"
    using P sz nov by (rule unat_flash_count_page)
  also have "\<dots> = unat sz div unat ?P"
    using P sz m by (intro aligned_nat) (simp_all add: unat_gt_0)
  also have "\<dots> = unat (sz div ?P)" by (simp add: unat_div)
  finally show ?thesis by (simp add: word_unat_eq_iff)
qed

theorem flash_count_page_aligned_witness:
  "flash_count_page cfg_single 0x08000000 0x40000 = 128"
  using flash_count_page_aligned [of cfg_single "0x08000000" "0x40000"] by (simp add: cfg_single_def)

lemma aligned_minus_one:
  assumes P: "(P::uint32_t) \<noteq> 0" and a: "addr \<noteq> 0" and al: "addr mod P = 0"
  shows "(addr - 1) div P = addr div P - 1"
proof -
  have Pp: "0 < unat P" using P by (simp add: unat_gt_0)
  have ap: "0 < unat addr" using a by (simp add: unat_gt_0)
  have "unat (addr mod P) = 0" using al by simp
  then have "unat addr mod unat P = 0" by (simp add: unat_mod)
  then obtain k where k: "unat addr = unat P * k" by (auto dest: mod_0_imp_dvd)
  then obtain j where j: "k = Suc j" using ap by (cases k) auto
  have "unat addr - 1 = j * unat P + (unat P - 1)" using k j Pp by (cases "unat P") (simp_all add: algebra_simps)
  moreover have "(j * unat P + (unat P - 1)) div unat P = j"
  proof -
    have r: "r < unat P \<Longrightarrow> (j * unat P + r) div unat P = j" for r by simp
    have "unat P - 1 < unat P" using Pp by simp
    then show ?thesis by (rule r)
  qed
  ultimately have e: "(unat addr - 1) div unat P = j" by (simp only:)
  have s: "unat addr div unat P = Suc j" using k j Pp by simp
  have "unat ((addr - 1) div P) = j" using e a by (simp add: unat_div unat_minus_one)
  moreover have "addr div P \<noteq> 0" using s by (metis unat_div unat_0 nat.distinct(1))
  then have "unat (addr div P - 1) = j" using s by (simp add: unat_minus_one unat_div)
  ultimately show ?thesis by (simp add: word_unat_eq_iff)
qed

subsection \<open>Zero-size requests\<close>

lemma minus_one_u32: "(- 1 :: uint32_t) = 0xFFFFFFFF"
  by simp

lemma flash_erase_dual_bank_zero_size:
  "flash_erase_dual_bank cfg h addr 0 s = Return (eFLASH_OK cfg) s"
proof (cases "addr < FLASH_CFG_BANK2_START_ADDR cfg")
  case True
  then show ?thesis
    by (simp add: flash_erase_dual_bank_def bank_data_split_def erase_bank_def Let_def)
next
  case False
  then show ?thesis
    by (simp add: flash_erase_dual_bank_def bank_data_split_def erase_bank_def Let_def)
qed

text \<open>
  Claim C10, as stated, fails in the dual-bank build: a request of size 0 is accepted,
  but both banks get a part of size 0 and the loop, which asks \<^verbatim>\<open>bank_data[bank].size > 0\<close>
  before anything else, passes over them. No page count is computed and the HAL is not
  called; the request returns \<open>eFLASH_OK\<close> with the state unchanged.
\<close>

theorem zero_size_dual_bank_counterexample:
  "gb_is_init s_ready \<and>
   flash_region_check cfg_dual 0x08000800 0 \<and>
   bd_size (bank_data_split cfg_dual 0x08000800 0 eFLASH_BANK_1) = 0 \<and>
   bd_size (bank_data_split cfg_dual 0x08000800 0 eFLASH_BANK_2) = 0 \<and>
   erase_bank cfg_dual hal_good (bank_data_split cfg_dual 0x08000800 0) eFLASH_BANK_1
     (eFLASH_OK cfg_dual) flash_erase_zero s_ready =
       Return (eFLASH_OK cfg_dual, flash_erase_zero) s_ready \<and>
   flash_erase cfg_dual hal_good 0x08000800 0 s_ready = Return (eFLASH_OK cfg_dual) s_ready"
  by (simp add: s_ready_def cfg_dual_def flash_region_check_def bank_data_split_def erase_bank_def
      flash_erase_def flash_erase_dual_bank_def FLASH_ASSERT_def Let_def)

text \<open>
  Claim C10, amended. A request of size 0 passes the region check whenever its address
  does (0 is within the size bound). In the single-bank build \<open>flash_erase\<close> then calls the
  HAL for \<open>flash_count_page addr 0\<close> pages, and that count works on \<open>addr + 0 - 1\<close> in
  32-bit arithmetic: for a page-aligned address other than 0 it is 0; for address 0 the
  subtraction wraps to \<open>2^32 - 1\<close> and the count is \<open>(2^32 - 1) / page_size + 1\<close> (as a
  number, for every page size above 1). In the dual-bank build the request of size 0 is
  passed over: no page count is computed, the HAL is not called and \<open>eFLASH_OK\<close> is
  returned.
\<close>

theorem flash_count_page_zero_size:
  "flash_region_check cfg addr 0 = (FLASH_CFG_START_ADDR cfg \<le> addr)
   \<and> (gb_is_init s \<and> FLASH_CFG_START_ADDR cfg \<le> addr \<and> \<not> FLASH_CFG_DUAL_BANK_MODE_EN cfg \<and>
       FLASH_ASSERT cfg (flash_count_page cfg addr 0 \<le> FLASH_PAGE_NB cfg) \<longrightarrow>
        (\<exists>status.
           flash_erase cfg h addr 0 s =
             Return status (hal_do (HAL_FLASHEx_Erase
               \<lparr>TypeErase = FLASH_TYPEERASE_PAGES, Banks = FLASH_BANK_1,
                Page = (addr - FLASH_BASE cfg) div FLASH_CFG_PAGE_SIZE_BYTE cfg,
                NbPages = flash_count_page cfg addr 0\<rparr>) s)))
   \<and> (FLASH_CFG_PAGE_SIZE_BYTE cfg \<noteq> 0 \<and> addr \<noteq> 0 \<and> addr mod FLASH_CFG_PAGE_SIZE_BYTE cfg = 0 \<longrightarrow>
        flash_count_page cfg addr 0 = 0)
   \<and> flash_count_page cfg 0 0 = 0xFFFFFFFF div FLASH_CFG_PAGE_SIZE_BYTE cfg + 1
   \<and> (1 < FLASH_CFG_PAGE_SIZE_BYTE cfg \<longrightarrow>
        unat (flash_count_page cfg 0 0) = (2 ^ 32 - 1) div unat (FLASH_CFG_PAGE_SIZE_BYTE cfg) + 1)
   \<and> (gb_is_init s \<and> FLASH_CFG_START_ADDR cfg \<le> addr \<and> FLASH_CFG_DUAL_BANK_MODE_EN cfg \<longrightarrow>
        flash_erase cfg h addr 0 s = Return (eFLASH_OK cfg) s)"
proof (intro conjI impI)
  show "flash_region_check cfg addr 0 = (FLASH_CFG_START_ADDR cfg \<le> addr)"
    by (simp add: flash_region_check_def)
next
  assume "gb_is_init s \<and> FLASH_CFG_START_ADDR cfg \<le> addr \<and> \<not> FLASH_CFG_DUAL_BANK_MODE_EN cfg \<and>
       FLASH_ASSERT cfg (flash_count_page cfg addr 0 \<le> FLASH_PAGE_NB cfg)"
  then show "\<exists>status.
           flash_erase cfg h addr 0 s =
             Return status (hal_do (HAL_FLASHEx_Erase
               \<lparr>TypeErase = FLASH_TYPEERASE_PAGES, Banks = FLASH_BANK_1,
                Page = (addr - FLASH_BASE cfg) div FLASH_CFG_PAGE_SIZE_BYTE cfg,
                NbPages = flash_count_page cfg addr 0\<rparr>) s)"
    by (simp add: flash_erase_def flash_region_check_def flash_erase_single_bank_def
        FLASH_ASSERT_def Let_def)
next
  assume "FLASH_CFG_PAGE_SIZE_BYTE cfg \<noteq> 0 \<and> addr \<noteq> 0 \<and> addr mod FLASH_CFG_PAGE_SIZE_BYTE cfg = 0"
  then show "flash_count_page cfg addr 0 = 0"
    by (simp add: flash_count_page_def aligned_minus_one)
next
  show "flash_count_page cfg 0 0 = 0xFFFFFFFF div FLASH_CFG_PAGE_SIZE_BYTE cfg + 1"
    by (simp add: flash_count_page_def minus_one_u32)
next
  let ?P = "FLASH_CFG_PAGE_SIZE_BYTE cfg"
  assume P: "1 < ?P"
  then have "1 < unat ?P" by (simp add: word_less_nat_alt)
  then have "2 \<le> unat ?P" by simp
  then have "(2 ^ 32 - 1) div unat ?P \<le> (2 ^ 32 - 1) div (2::nat)" by (rule div_le_mono2[rotated]) simp
  then have b: "(2 ^ 32 - 1) div unat ?P + 1 < 2 ^ LENGTH(32)" by simp
  have "unat ((0xFFFFFFFF::uint32_t) div ?P) = (2 ^ 32 - 1) div unat ?P" by (simp add: unat_div)
  then have "unat ((0xFFFFFFFF::uint32_t) div ?P + 1) = (2 ^ 32 - 1) div unat ?P + 1"
    using b by (simp add: unat_add_lem [THEN iffD1])
  then show "unat (flash_count_page cfg 0 0) = (2 ^ 32 - 1) div unat ?P + 1"
    by (simp add: flash_count_page_def minus_one_u32)
next
  assume "gb_is_init s \<and> FLASH_CFG_START_ADDR cfg \<le> addr \<and> FLASH_CFG_DUAL_BANK_MODE_EN cfg"
  then show "flash_erase cfg h addr 0 s = Return (eFLASH_OK cfg) s"
    by (simp add: flash_erase_def flash_region_check_def FLASH_ASSERT_def
        flash_erase_dual_bank_zero_size)
qed

theorem flash_count_page_zero_size_witness:
  "flash_region_check cfg_single 0x08000800 0 \<and>
   (\<exists>status.
      flash_erase cfg_single hal_good 0x08000800 0 s_ready =
        Return status (hal_do (HAL_FLASHEx_Erase
          \<lparr>TypeErase = FLASH_TYPEERASE_PAGES, Banks = FLASH_BANK_1, Page = 1, NbPages = 0\<rparr>)
          s_ready)) \<and>
   flash_count_page cfg_single 0x08000800 0 = 0 \<and>
   flash_count_page cfg_single 0 0 = 0x200000 \<and>
   unat (flash_count_page cfg_single 0 0) = (2 ^ 32 - 1) div 2048 + 1 \<and>
   flash_erase cfg_dual hal_good 0x08000800 0 s_ready = Return 0 s_ready"
proof -
  note t = flash_count_page_zero_size [where cfg = cfg_single and addr = "0x08000800"
      and s = s_ready and h = hal_good]
  note d = flash_count_page_zero_size [where cfg = cfg_dual and addr = "0x08000800"
      and s = s_ready and h = hal_good]
  have st: "FLASH_CFG_START_ADDR cfg_single \<le> 0x08000800" by (simp add: cfg_single_def)
  have al: "FLASH_CFG_PAGE_SIZE_BYTE cfg_single \<noteq> 0 \<and> (0x08000800 :: uint32_t) \<noteq> 0 \<and>
      0x08000800 mod FLASH_CFG_PAGE_SIZE_BYTE cfg_single = 0"
    by (simp add: cfg_single_def)
  have P: "1 < FLASH_CFG_PAGE_SIZE_BYTE cfg_single" by (simp add: cfg_single_def)
  have c0: "flash_count_page cfg_single 0x08000800 0 = 0"
    using t al by blast
  have sb: "gb_is_init s_ready \<and> FLASH_CFG_START_ADDR cfg_single \<le> 0x08000800 \<and>
      \<not> FLASH_CFG_DUAL_BANK_MODE_EN cfg_single \<and>
      FLASH_ASSERT cfg_single (flash_count_page cfg_single 0x08000800 0 \<le> FLASH_PAGE_NB cfg_single)"
    by (simp add: c0 FLASH_ASSERT_def, simp add: s_ready_def cfg_single_def)
  have db: "gb_is_init s_ready \<and> FLASH_CFG_START_ADDR cfg_dual \<le> 0x08000800 \<and>
      FLASH_CFG_DUAL_BANK_MODE_EN cfg_dual"
    by (simp add: s_ready_def cfg_dual_def)
  have pg: "(0x08000800 - FLASH_BASE cfg_single) div FLASH_CFG_PAGE_SIZE_BYTE cfg_single = 1"
    by (simp add: cfg_single_def)
  have a1: "flash_region_check cfg_single 0x08000800 0" using t st by blast
  have a2: "\<exists>status.
      flash_erase cfg_single hal_good 0x08000800 0 s_ready =
        Return status (hal_do (HAL_FLASHEx_Erase
          \<lparr>TypeErase = FLASH_TYPEERASE_PAGES, Banks = FLASH_BANK_1, Page = 1, NbPages = 0\<rparr>)
          s_ready)"
    using t sb by (simp add: c0 pg)
  have z: "0xFFFFFFFF div FLASH_CFG_PAGE_SIZE_BYTE cfg_single + 1 = 0x200000"
    by (simp add: cfg_single_def)
  have a4: "flash_count_page cfg_single 0 0 = 0x200000" using t z by simp
  have u: "unat (FLASH_CFG_PAGE_SIZE_BYTE cfg_single) = 2048" by (simp add: cfg_single_def)
  have a5: "unat (flash_count_page cfg_single 0 0) = (2 ^ 32 - 1) div 2048 + 1"
    using t [THEN conjunct2, THEN conjunct2, THEN conjunct2, THEN conjunct2, THEN conjunct1,
        rule_format, OF P] u by simp
  have ok: "eFLASH_OK cfg_dual = 0" by (simp add: cfg_dual_def)
  have a6: "flash_erase cfg_dual hal_good 0x08000800 0 s_ready = Return 0 s_ready"
    using d db ok by simp
  from a1 a2 c0 a4 a5 a6 show ?thesis by blast
qed


subsection \<open>Division of a section between the banks\<close>

lemma straddle_no_wrap:
  fixes addr sz B :: uint32_t
  assumes a: "addr < B" and b: "B < addr + sz"
  shows "unat (addr + sz) = unat addr + unat sz"
proof (cases "unat addr + unat sz < 2 ^ 32")
  case True
  then show ?thesis by (simp add: unat_word_ariths)
next
  case False
  have "unat addr < 2 ^ 32" "unat sz < 2 ^ 32"
    using unsigned_less [of addr, where 'a=nat] unsigned_less [of sz, where 'a=nat] by simp_all
  then have "(unat addr + unat sz) mod 2 ^ 32 = unat addr + unat sz - 2 ^ 32"
    using False by (simp add: mod_if)
  then have "unat (addr + sz) = unat addr + unat sz - 2 ^ 32"
    by (simp add: unat_word_ariths)
  then have "unat (addr + sz) < unat addr" using \<open>unat sz < 2 ^ 32\<close> False by simp
  then show ?thesis using a b by (simp add: word_less_nat_alt)
qed

text \<open>
  Claim C4. In the dual-bank layout with bank 2 starting at \<open>B\<close>, every section with
  \<open>addr < B\<close> and \<open>addr + size > B\<close> (as the code compares them, in 32 bits; the sum
  then does not wrap) is divided in two: bank 1 gets \<open>addr\<close> with size \<open>B - addr\<close>, that
  is \<open>[addr, B)\<close>, and bank 2 gets \<open>B\<close> with size \<open>addr + size - B\<close>, that is
  \<open>[B, addr + size)\<close>; both sizes are positive, so the loop, which takes bank 1 before
  bank 2, works on both. The section \<open>[B - 1, B + 1)\<close> gives two parts of size 1.
\<close>

theorem bank_data_split_straddle:
  "(addr < FLASH_CFG_BANK2_START_ADDR cfg \<and> FLASH_CFG_BANK2_START_ADDR cfg < addr + sz \<longrightarrow>
      bank_data_split cfg addr sz eFLASH_BANK_1 =
        \<lparr>bd_addr = addr, bd_size = FLASH_CFG_BANK2_START_ADDR cfg - addr\<rparr> \<and>
      bank_data_split cfg addr sz eFLASH_BANK_2 =
        \<lparr>bd_addr = FLASH_CFG_BANK2_START_ADDR cfg,
         bd_size = addr + sz - FLASH_CFG_BANK2_START_ADDR cfg\<rparr> \<and>
      unat (FLASH_CFG_BANK2_START_ADDR cfg - addr) = unat (FLASH_CFG_BANK2_START_ADDR cfg) - unat addr \<and>
      unat (addr + sz - FLASH_CFG_BANK2_START_ADDR cfg) =
        unat addr + unat sz - unat (FLASH_CFG_BANK2_START_ADDR cfg) \<and>
      0 < unat (FLASH_CFG_BANK2_START_ADDR cfg) - unat addr \<and>
      0 < unat addr + unat sz - unat (FLASH_CFG_BANK2_START_ADDR cfg))
   \<and> (FLASH_CFG_BANK2_START_ADDR cfg \<noteq> 0 \<and> FLASH_CFG_BANK2_START_ADDR cfg \<noteq> 0xFFFFFFFF \<longrightarrow>
      bank_data_split cfg (FLASH_CFG_BANK2_START_ADDR cfg - 1) 2 eFLASH_BANK_1 =
        \<lparr>bd_addr = FLASH_CFG_BANK2_START_ADDR cfg - 1, bd_size = 1\<rparr> \<and>
      bank_data_split cfg (FLASH_CFG_BANK2_START_ADDR cfg - 1) 2 eFLASH_BANK_2 =
        \<lparr>bd_addr = FLASH_CFG_BANK2_START_ADDR cfg, bd_size = 1\<rparr>)"
proof (intro conjI impI)
  let ?B = "FLASH_CFG_BANK2_START_ADDR cfg"
  assume h: "addr < ?B \<and> ?B < addr + sz"
  then have a: "addr < ?B" and b: "?B < addr + sz" by simp_all
  have nw: "unat (addr + sz) = unat addr + unat sz" using a b by (rule straddle_no_wrap)
  have nb: "\<not> addr + sz < ?B" using b by (simp add: not_less less_imp_le)
  show "bank_data_split cfg addr sz eFLASH_BANK_1 = \<lparr>bd_addr = addr, bd_size = ?B - addr\<rparr>"
    using a nb by (simp add: bank_data_split_def Let_def)
  show "bank_data_split cfg addr sz eFLASH_BANK_2 = \<lparr>bd_addr = ?B, bd_size = addr + sz - ?B\<rparr>"
    using a nb by (simp add: bank_data_split_def Let_def)
  show "unat (?B - addr) = unat ?B - unat addr"
    using a by (simp add: unat_sub less_imp_le)
  have "unat (addr + sz - ?B) = unat (addr + sz) - unat ?B"
    using b by (simp add: unat_sub less_imp_le)
  then show "unat (addr + sz - ?B) = unat addr + unat sz - unat ?B" using nw by simp
  show "0 < unat ?B - unat addr" using a by (simp add: word_less_nat_alt)
  show "0 < unat addr + unat sz - unat ?B" using b nw by (simp add: word_less_nat_alt)
next
  let ?B = "FLASH_CFG_BANK2_START_ADDR cfg"
  assume h: "?B \<noteq> 0 \<and> ?B \<noteq> 0xFFFFFFFF"
  then have a: "?B - 1 < ?B" by (simp add: word_less_nat_alt unat_minus_one unat_gt_0)
  have "unat ?B \<noteq> unat (0xFFFFFFFF::uint32_t)" using h by (simp only: word_unat_eq_iff not_False_eq_True)
  then have "unat ?B + 1 < 2 ^ LENGTH(32)"
    using unsigned_less [of ?B, where 'a=nat] by simp
  then have "unat (?B + 1) = unat ?B + 1" by (simp add: unat_add_lem [THEN iffD1])
  then have "?B < ?B + 1" by (simp add: word_less_nat_alt)
  then have "\<not> (?B + 1 < ?B)" by simp
  then have b: "\<not> (1 + ?B < ?B)" by (simp add: add.commute)
  show "bank_data_split cfg (?B - 1) 2 eFLASH_BANK_1 = \<lparr>bd_addr = ?B - 1, bd_size = 1\<rparr>"
    using a b by (simp add: bank_data_split_def Let_def)
  show "bank_data_split cfg (?B - 1) 2 eFLASH_BANK_2 = \<lparr>bd_addr = ?B, bd_size = 1\<rparr>"
    using a b by (simp add: bank_data_split_def Let_def)
qed

theorem bank_data_split_straddle_witness:
  "bank_data_split cfg_dual 0x0803F800 0x1000 eFLASH_BANK_1 = \<lparr>bd_addr = 0x0803F800, bd_size = 0x800\<rparr> \<and>
   bank_data_split cfg_dual 0x0803F800 0x1000 eFLASH_BANK_2 = \<lparr>bd_addr = 0x08040000, bd_size = 0x800\<rparr> \<and>
   bank_data_split cfg_dual 0x0803FFFF 2 eFLASH_BANK_1 = \<lparr>bd_addr = 0x0803FFFF, bd_size = 1\<rparr> \<and>
   bank_data_split cfg_dual 0x0803FFFF 2 eFLASH_BANK_2 = \<lparr>bd_addr = 0x08040000, bd_size = 1\<rparr>"
  using bank_data_split_straddle [of "0x0803F800" cfg_dual "0x1000"]
  by (simp add: cfg_dual_def)


subsection \<open>Type of erase\<close>

lemma erase_bank_request:
  assumes "bd_size (bank_data bank) \<noteq> 0"
    and "FLASH_ASSERT cfg (flash_count_page cfg (bd_addr (bank_data bank)) (bd_size (bank_data bank))
            \<le> FLASH_PAGE_NB cfg)"
  shows "erase_bank cfg h bank_data bank status fe s =
     Return
       (if hal_ok h (hal_log s) (HAL_FLASHEx_Erase (setup_flash_erase cfg bank
              ((bd_addr (bank_data bank) - gu32_flash_base cfg bank) div FLASH_CFG_PAGE_SIZE_BYTE cfg)
              (flash_count_page cfg (bd_addr (bank_data bank)) (bd_size (bank_data bank))) fe))
        then status else 0,
        setup_flash_erase cfg bank
              ((bd_addr (bank_data bank) - gu32_flash_base cfg bank) div FLASH_CFG_PAGE_SIZE_BYTE cfg)
              (flash_count_page cfg (bd_addr (bank_data bank)) (bd_size (bank_data bank))) fe)
       (hal_do (HAL_FLASHEx_Erase (setup_flash_erase cfg bank
              ((bd_addr (bank_data bank) - gu32_flash_base cfg bank) div FLASH_CFG_PAGE_SIZE_BYTE cfg)
              (flash_count_page cfg (bd_addr (bank_data bank)) (bd_size (bank_data bank))) fe)) s)"
  using assms by (simp add: erase_bank_def Let_def word_greater_zero_iff)

lemma setup_flash_erase_Banks:
  "Banks (setup_flash_erase cfg bank p n e) =
     (case bank of eFLASH_BANK_1 \<Rightarrow> FLASH_BANK_1 | eFLASH_BANK_2 \<Rightarrow> FLASH_BANK_2)"
  by (cases bank) (simp_all add: setup_flash_erase_def Let_def)

lemma setup_flash_erase_TypeErase:
  "TypeErase (setup_flash_erase cfg bank p n e) =
     (if n = FLASH_PAGE_NB cfg then FLASH_TYPEERASE_MASSERASE else FLASH_TYPEERASE_PAGES)"
  by (simp add: setup_flash_erase_def Let_def)

lemma setup_flash_erase_pages:
  "n \<noteq> FLASH_PAGE_NB cfg \<Longrightarrow>
     Page (setup_flash_erase cfg bank p n e) = p \<and> NbPages (setup_flash_erase cfg bank p n e) = n"
  by (simp add: setup_flash_erase_def Let_def)

text \<open>
  Claim C3, as stated, fails in the single-bank configuration: an erase of the whole bank,
  128 pages of 128, is still a page erase. \<open>flash_erase_single_bank\<close> sets the type of
  erase to \<open>FLASH_TYPEERASE_PAGES\<close> without looking at the count.
\<close>

theorem single_bank_page_erase_counterexample:
  "flash_count_page cfg_single 0x08000000 0x40000 = FLASH_PAGE_NB cfg_single \<and>
   flash_erase cfg_single hal_good 0x08000000 0x40000 s_ready =
     Return 0 \<lparr>gb_is_init = True, hal_log = [HAL_FLASHEx_Erase
        \<lparr>TypeErase = FLASH_TYPEERASE_PAGES, Banks = FLASH_BANK_1, Page = 0, NbPages = 128\<rparr>]\<rparr>"
  by (simp add: cfg_single_def s_ready_def hal_good_def flash_erase_def flash_erase_single_bank_def
      flash_region_check_def flash_count_page_def FLASH_ASSERT_def hal_do_def)

text \<open>
  Claim C3, amended. In the dual-bank configuration, for every bank with a part of
  non-zero size whose page count passes the assertion, the loop calls the HAL with a mass
  erase if and only if the computed page count equals \<open>FLASH_PAGE_NB\<close>, and otherwise with
  a page erase of the computed start page and page count, on the bank of the iteration.
  In the single-bank configuration the call is always a page erase with the computed
  start page and page count, on bank 1.
\<close>

theorem erase_type_selection:
  "(bd_size (bank_data bank) \<noteq> 0 \<and>
    FLASH_ASSERT cfg (flash_count_page cfg (bd_addr (bank_data bank)) (bd_size (bank_data bank))
            \<le> FLASH_PAGE_NB cfg) \<longrightarrow>
      (\<exists>status' e.
         erase_bank cfg h bank_data bank status fe s =
           Return (status', e) (hal_do (HAL_FLASHEx_Erase e) s) \<and>
         (TypeErase e = FLASH_TYPEERASE_MASSERASE \<longleftrightarrow>
            flash_count_page cfg (bd_addr (bank_data bank)) (bd_size (bank_data bank)) = FLASH_PAGE_NB cfg) \<and>
         (TypeErase e = FLASH_TYPEERASE_PAGES \<longleftrightarrow>
            flash_count_page cfg (bd_addr (bank_data bank)) (bd_size (bank_data bank)) \<noteq> FLASH_PAGE_NB cfg) \<and>
         Banks e = (case bank of eFLASH_BANK_1 \<Rightarrow> FLASH_BANK_1 | eFLASH_BANK_2 \<Rightarrow> FLASH_BANK_2) \<and>
         (TypeErase e = FLASH_TYPEERASE_PAGES \<longrightarrow>
            Page e = (bd_addr (bank_data bank) - gu32_flash_base cfg bank) div FLASH_CFG_PAGE_SIZE_BYTE cfg \<and>
            NbPages e = flash_count_page cfg (bd_addr (bank_data bank)) (bd_size (bank_data bank)))))
   \<and> (FLASH_ASSERT cfg (flash_count_page cfg addr sz \<le> FLASH_PAGE_NB cfg) \<longrightarrow>
      (\<exists>status'.
         flash_erase_single_bank cfg h addr sz s =
           Return status' (hal_do (HAL_FLASHEx_Erase
             \<lparr>TypeErase = FLASH_TYPEERASE_PAGES, Banks = FLASH_BANK_1,
              Page = (addr - FLASH_BASE cfg) div FLASH_CFG_PAGE_SIZE_BYTE cfg,
              NbPages = flash_count_page cfg addr sz\<rparr>) s)))"
proof (intro conjI impI)
  let ?n = "flash_count_page cfg (bd_addr (bank_data bank)) (bd_size (bank_data bank))"
  let ?p = "(bd_addr (bank_data bank) - gu32_flash_base cfg bank) div FLASH_CFG_PAGE_SIZE_BYTE cfg"
  let ?e = "setup_flash_erase cfg bank ?p ?n fe"
  assume h: "bd_size (bank_data bank) \<noteq> 0 \<and> FLASH_ASSERT cfg (?n \<le> FLASH_PAGE_NB cfg)"
  then have "erase_bank cfg h bank_data bank status fe s =
      Return (if hal_ok h (hal_log s) (HAL_FLASHEx_Erase ?e) then status else 0, ?e)
        (hal_do (HAL_FLASHEx_Erase ?e) s)"
    by (simp add: erase_bank_request)
  moreover have "TypeErase ?e = FLASH_TYPEERASE_MASSERASE \<longleftrightarrow> ?n = FLASH_PAGE_NB cfg"
    by (simp add: setup_flash_erase_TypeErase)
  moreover have "TypeErase ?e = FLASH_TYPEERASE_PAGES \<longleftrightarrow> ?n \<noteq> FLASH_PAGE_NB cfg"
    by (simp add: setup_flash_erase_TypeErase)
  moreover have "Banks ?e = (case bank of eFLASH_BANK_1 \<Rightarrow> FLASH_BANK_1 | eFLASH_BANK_2 \<Rightarrow> FLASH_BANK_2)"
    by (rule setup_flash_erase_Banks)
  moreover have "TypeErase ?e = FLASH_TYPEERASE_PAGES \<longrightarrow> Page ?e = ?p \<and> NbPages ?e = ?n"
    by (simp add: setup_flash_erase_TypeErase setup_flash_erase_pages)
  ultimately show "\<exists>status' e.
         erase_bank cfg h bank_data bank status fe s =
           Return (status', e) (hal_do (HAL_FLASHEx_Erase e) s) \<and>
         (TypeErase e = FLASH_TYPEERASE_MASSERASE \<longleftrightarrow> ?n = FLASH_PAGE_NB cfg) \<and>
         (TypeErase e = FLASH_TYPEERASE_PAGES \<longleftrightarrow> ?n \<noteq> FLASH_PAGE_NB cfg) \<and>
         Banks e = (case bank of eFLASH_BANK_1 \<Rightarrow> FLASH_BANK_1 | eFLASH_BANK_2 \<Rightarrow> FLASH_BANK_2) \<and>
         (TypeErase e = FLASH_TYPEERASE_PAGES \<longrightarrow> Page e = ?p \<and> NbPages e = ?n)"
    by blast
next
  assume "FLASH_ASSERT cfg (flash_count_page cfg addr sz \<le> FLASH_PAGE_NB cfg)"
  then show "\<exists>status'.
         flash_erase_single_bank cfg h addr sz s =
           Return status' (hal_do (HAL_FLASHEx_Erase
             \<lparr>TypeErase = FLASH_TYPEERASE_PAGES, Banks = FLASH_BANK_1,
              Page = (addr - FLASH_BASE cfg) div FLASH_CFG_PAGE_SIZE_BYTE cfg,
              NbPages = flash_count_page cfg addr sz\<rparr>) s)"
    by (simp add: flash_erase_single_bank_def Let_def)
qed

theorem erase_type_selection_witness:
  "(\<exists>status' e.
       erase_bank cfg_dual hal_good (bank_data_split cfg_dual 0x08040000 0x40000) eFLASH_BANK_2 0
          flash_erase_zero s_ready = Return (status', e) (hal_do (HAL_FLASHEx_Erase e) s_ready) \<and>
       TypeErase e = FLASH_TYPEERASE_MASSERASE \<and> Banks e = FLASH_BANK_2)
   \<and> (\<exists>status'.
       flash_erase_single_bank cfg_single hal_good 0x08000000 0x40000 s_ready =
         Return status' (hal_do (HAL_FLASHEx_Erase
           \<lparr>TypeErase = FLASH_TYPEERASE_PAGES, Banks = FLASH_BANK_1, Page = 0, NbPages = 128\<rparr>) s_ready))"
proof -
  let ?bd = "bank_data_split cfg_dual 0x08040000 0x40000"
  have b: "?bd eFLASH_BANK_2 = \<lparr>bd_addr = 0x08040000, bd_size = 0x40000\<rparr>"
    by (simp add: bank_data_split_def cfg_dual_def)
  have n: "flash_count_page cfg_dual 0x08040000 0x40000 = 128"
    by (simp add: flash_count_page_def cfg_dual_def)
  have n1: "flash_count_page cfg_single 0x08000000 0x40000 = 128"
    by (simp add: flash_count_page_def cfg_single_def)
  have h1: "bd_size (?bd eFLASH_BANK_2) \<noteq> 0 \<and>
      FLASH_ASSERT cfg_dual (flash_count_page cfg_dual (bd_addr (?bd eFLASH_BANK_2))
         (bd_size (?bd eFLASH_BANK_2)) \<le> FLASH_PAGE_NB cfg_dual)"
    by (simp add: b n FLASH_ASSERT_def, simp add: cfg_dual_def)
  have h2: "FLASH_ASSERT cfg_single (flash_count_page cfg_single 0x08000000 0x40000
         \<le> FLASH_PAGE_NB cfg_single)"
    by (simp add: n1 FLASH_ASSERT_def, simp add: cfg_single_def)
  have nb: "FLASH_PAGE_NB cfg_dual = 128" by (simp add: cfg_dual_def)
  have pg: "(0x08000000 - FLASH_BASE cfg_single) div FLASH_CFG_PAGE_SIZE_BYTE cfg_single = 0"
    by (simp add: cfg_single_def)
  have t1: "\<exists>status' e.
       erase_bank cfg_dual hal_good ?bd eFLASH_BANK_2 0 flash_erase_zero s_ready =
         Return (status', e) (hal_do (HAL_FLASHEx_Erase e) s_ready) \<and>
       TypeErase e = FLASH_TYPEERASE_MASSERASE \<and> Banks e = FLASH_BANK_2"
    using erase_type_selection [where bank_data = ?bd and bank = eFLASH_BANK_2 and cfg = cfg_dual
        and h = hal_good and status = 0 and fe = flash_erase_zero and s = s_ready
        and addr = 0 and sz = 0, THEN conjunct1, rule_format, OF h1]
    by (auto simp add: b n nb)
  have t2: "\<exists>status'.
       flash_erase_single_bank cfg_single hal_good 0x08000000 0x40000 s_ready =
         Return status' (hal_do (HAL_FLASHEx_Erase
           \<lparr>TypeErase = FLASH_TYPEERASE_PAGES, Banks = FLASH_BANK_1, Page = 0, NbPages = 128\<rparr>) s_ready)"
    using erase_type_selection [where bank_data = ?bd and bank = eFLASH_BANK_2 and cfg = cfg_single
        and h = hal_good and status = 0 and fe = flash_erase_zero and s = s_ready
        and addr = "0x08000000" and sz = "0x40000", THEN conjunct2, rule_format, OF h2]
    by (simp add: n1 pg)
  from t1 t2 show ?thesis by (rule conjI)
qed


subsection \<open>Order of the erase requests\<close>

lemma bank_data_split_two:
  assumes a: "addr < FLASH_CFG_BANK2_START_ADDR cfg" and b: "FLASH_CFG_BANK2_START_ADDR cfg < addr + sz"
  shows "bank_data_split cfg addr sz eFLASH_BANK_1 =
           \<lparr>bd_addr = addr, bd_size = FLASH_CFG_BANK2_START_ADDR cfg - addr\<rparr>"
    and "bank_data_split cfg addr sz eFLASH_BANK_2 =
           \<lparr>bd_addr = FLASH_CFG_BANK2_START_ADDR cfg,
            bd_size = addr + sz - FLASH_CFG_BANK2_START_ADDR cfg\<rparr>"
    and "FLASH_CFG_BANK2_START_ADDR cfg - addr \<noteq> 0"
    and "addr + sz - FLASH_CFG_BANK2_START_ADDR cfg \<noteq> 0"
proof -
  have nb: "\<not> addr + sz < FLASH_CFG_BANK2_START_ADDR cfg"
    using b by (simp add: not_less less_imp_le)
  show "bank_data_split cfg addr sz eFLASH_BANK_1 =
           \<lparr>bd_addr = addr, bd_size = FLASH_CFG_BANK2_START_ADDR cfg - addr\<rparr>"
    using a nb by (simp add: bank_data_split_def Let_def)
  show "bank_data_split cfg addr sz eFLASH_BANK_2 =
           \<lparr>bd_addr = FLASH_CFG_BANK2_START_ADDR cfg,
            bd_size = addr + sz - FLASH_CFG_BANK2_START_ADDR cfg\<rparr>"
    using a nb by (simp add: bank_data_split_def Let_def)
  show "FLASH_CFG_BANK2_START_ADDR cfg - addr \<noteq> 0" using a by simp
  show "addr + sz - FLASH_CFG_BANK2_START_ADDR cfg \<noteq> 0" using b by simp
qed

text \<open>
  Claim C2. In a dual-bank erase with a request for each bank, the requests go to the
  flash controller in ascending bank order and execution stops at the first failure: when
  the erase of bank 1 fails, the erase of bank 2 is not attempted. The code does not stop.
  Where the loop of \<^verbatim>\<open>flash_write\<close> sets \<open>eFLASH_ERROR\<close> and leaves at a HAL error, the loop
  over the banks only assigns \<^verbatim>\<open>false\<close> to the status and goes on. On hardware where every
  erase fails, the erase of \<open>[0x0803F800, 0x08040800)\<close> calls the HAL for bank 1, which
  fails, then for bank 2 all the same, and returns 0, which is \<open>eFLASH_OK\<close> here.
\<close>

theorem dual_bank_erase_after_failure:
  "\<not> hal_ok hal_erase_fails []
       (HAL_FLASHEx_Erase \<lparr>TypeErase = FLASH_TYPEERASE_PAGES, Banks = FLASH_BANK_1,
                           Page = 127, NbPages = 1\<rparr>) \<and>
   flash_erase cfg_dual hal_erase_fails 0x0803F800 0x1000 s_ready =
     Return (eFLASH_OK cfg_dual) \<lparr>gb_is_init = True, hal_log =
       [HAL_FLASHEx_Erase \<lparr>TypeErase = FLASH_TYPEERASE_PAGES, Banks = FLASH_BANK_1,
                            Page = 127, NbPages = 1\<rparr>,
        HAL_FLASHEx_Erase \<lparr>TypeErase = FLASH_TYPEERASE_PAGES, Banks = FLASH_BANK_2,
                            Page = 0, NbPages = 1\<rparr>]\<rparr>"
  by (simp add: flash_erase_def flash_region_check_def FLASH_ASSERT_def flash_erase_dual_bank_def
      erase_bank_def bank_data_split_def setup_flash_erase_def flash_count_page_def
      gu32_flash_base_def hal_do_def flash_erase_zero_def cfg_dual_def hal_erase_fails_def
      s_ready_def Let_def)

text \<open>
  The same for every section that lies across the bank boundary and every hardware: when
  the page counts pass the assertions, the HAL is called for bank 1 and then for bank 2,
  whatever the first call returns.
\<close>

lemma dual_bank_erase_order:
  assumes a: "addr < FLASH_CFG_BANK2_START_ADDR cfg"
    and b: "FLASH_CFG_BANK2_START_ADDR cfg < addr + sz"
    and as1: "FLASH_ASSERT cfg (flash_count_page cfg addr (FLASH_CFG_BANK2_START_ADDR cfg - addr)
                \<le> FLASH_PAGE_NB cfg)"
    and as2: "FLASH_ASSERT cfg (flash_count_page cfg (FLASH_CFG_BANK2_START_ADDR cfg)
                (addr + sz - FLASH_CFG_BANK2_START_ADDR cfg) \<le> FLASH_PAGE_NB cfg)"
  shows "\<exists>status e1 e2.
     flash_erase_dual_bank cfg h addr sz s =
       Return status
              (s\<lparr>hal_log := hal_log s @ [HAL_FLASHEx_Erase e1, HAL_FLASHEx_Erase e2]\<rparr>) \<and>
     Banks e1 = FLASH_BANK_1 \<and> Banks e2 = FLASH_BANK_2"
proof -
  let ?B = "FLASH_CFG_BANK2_START_ADDR cfg"
  let ?bd = "bank_data_split cfg addr sz"
  let ?e1 = "setup_flash_erase cfg eFLASH_BANK_1
      ((addr - gu32_flash_base cfg eFLASH_BANK_1) div FLASH_CFG_PAGE_SIZE_BYTE cfg)
      (flash_count_page cfg addr (?B - addr)) flash_erase_zero"
  let ?e2 = "setup_flash_erase cfg eFLASH_BANK_2
      ((?B - gu32_flash_base cfg eFLASH_BANK_2) div FLASH_CFG_PAGE_SIZE_BYTE cfg)
      (flash_count_page cfg ?B (addr + sz - ?B)) ?e1"
  let ?st1 = "if hal_ok h (hal_log s) (HAL_FLASHEx_Erase ?e1) then eFLASH_OK cfg else 0"
  let ?s1 = "hal_do (HAL_FLASHEx_Erase ?e1) s"
  note sp = bank_data_split_two [OF a b]
  have r1: "erase_bank cfg h ?bd eFLASH_BANK_1 (eFLASH_OK cfg) flash_erase_zero s =
      Return (?st1, ?e1) ?s1"
    using as1 sp(3) by (simp add: erase_bank_request sp(1))
  have r2: "erase_bank cfg h ?bd eFLASH_BANK_2 ?st1 ?e1 ?s1 =
      Return (if hal_ok h (hal_log ?s1) (HAL_FLASHEx_Erase ?e2) then ?st1 else 0, ?e2)
        (hal_do (HAL_FLASHEx_Erase ?e2) ?s1)"
    using as2 sp(4) by (simp add: erase_bank_request sp(2))
  have "flash_erase_dual_bank cfg h addr sz s =
      Return (if hal_ok h (hal_log ?s1) (HAL_FLASHEx_Erase ?e2) then ?st1 else 0)
        (hal_do (HAL_FLASHEx_Erase ?e2) ?s1)"
    by (simp add: flash_erase_dual_bank_def r1 r2)
  then have "flash_erase_dual_bank cfg h addr sz s =
       Return (if hal_ok h (hal_log s) (HAL_FLASHEx_Erase ?e1) \<and>
                  hal_ok h (hal_log s @ [HAL_FLASHEx_Erase ?e1]) (HAL_FLASHEx_Erase ?e2)
               then eFLASH_OK cfg else 0)
              (s\<lparr>hal_log := hal_log s @ [HAL_FLASHEx_Erase ?e1, HAL_FLASHEx_Erase ?e2]\<rparr>)"
    by (simp add: hal_do_def)
  moreover have "Banks ?e1 = FLASH_BANK_1" "Banks ?e2 = FLASH_BANK_2"
    by (simp_all add: setup_flash_erase_Banks)
  ultimately show ?thesis by blast
qed

lemma dual_bank_erase_order_witness:
  "\<exists>status e1 e2.
     flash_erase_dual_bank cfg_dual hal_erase_fails 0x0803F800 0x1000 s_ready =
       Return status
              (s_ready\<lparr>hal_log := hal_log s_ready @ [HAL_FLASHEx_Erase e1, HAL_FLASHEx_Erase e2]\<rparr>) \<and>
     Banks e1 = FLASH_BANK_1 \<and> Banks e2 = FLASH_BANK_2"
proof -
  have a: "0x0803F800 < FLASH_CFG_BANK2_START_ADDR cfg_dual"
    and b: "FLASH_CFG_BANK2_START_ADDR cfg_dual < 0x0803F800 + 0x1000"
    by (simp_all add: cfg_dual_def)
  have c: "FLASH_ASSERT cfg_dual x" for x by (simp add: FLASH_ASSERT_def cfg_dual_def)
  show ?thesis by (rule dual_bank_erase_order [OF a b c c])
qed


subsection \<open>Initialisation and de-initialisation\<close>

lemma wait_flash_ready_returns:
  "\<not> bsy_flag h (hal_log s @ replicate n HAL_FLASH_GET_FLAG_BSY) \<Longrightarrow>
   \<exists>k\<le>n. wait_flash_ready h s =
      Some (s\<lparr>hal_log := hal_log s @ replicate (Suc k) HAL_FLASH_GET_FLAG_BSY\<rparr>)"
proof (induction n arbitrary: s)
  case 0
  then have "wait_flash_ready h s = Some (hal_do HAL_FLASH_GET_FLAG_BSY s)"
    by (simp add: wait_flash_ready.simps)
  then show ?case by (simp add: hal_do_def)
next
  case (Suc n)
  show ?case
  proof (cases "bsy_flag h (hal_log s)")
    case False
    then have "wait_flash_ready h s = Some (hal_do HAL_FLASH_GET_FLAG_BSY s)"
      by (simp add: wait_flash_ready.simps)
    then show ?thesis by (auto simp add: hal_do_def intro: exI [of _ 0])
  next
    case True
    let ?s' = "hal_do HAL_FLASH_GET_FLAG_BSY s"
    have w: "wait_flash_ready h s = wait_flash_ready h ?s'"
      using True by (subst wait_flash_ready.simps) simp
    have "\<not> bsy_flag h (hal_log ?s' @ replicate n HAL_FLASH_GET_FLAG_BSY)"
      using Suc.prems by (simp add: hal_do_def replicate_app_Cons_same)
    from Suc.IH [OF this] obtain k where k: "k \<le> n"
      "wait_flash_ready h ?s' =
         Some (?s'\<lparr>hal_log := hal_log ?s' @ replicate (Suc k) HAL_FLASH_GET_FLAG_BSY\<rparr>)"
      by blast
    have "wait_flash_ready h s =
        Some (s\<lparr>hal_log := hal_log s @ replicate (Suc (Suc k)) HAL_FLASH_GET_FLAG_BSY\<rparr>)"
      using w k(2) by (simp add: hal_do_def replicate_app_Cons_same)
    then show ?thesis using k(1) by (intro exI [of _ "Suc k"]) simp
  qed
qed

text \<open>
  Claim C7. On hardware whose busy flag clears and whose unlock succeeds, \<open>flash_init\<close>
  from the uninitialised state returns \<open>eFLASH_OK\<close>; a second \<open>flash_init\<close> returns
  \<open>eFLASH_OK\<close> again and changes nothing, and \<open>flash_is_init\<close> then reports true.
  \<open>flash_deinit\<close> in the uninitialised state returns \<open>eFLASH_OK\<close> and changes nothing, and
  \<open>flash_is_init\<close> reports false.
\<close>

theorem init_twice_deinit_uninitialised:
  assumes fresh: "\<not> gb_is_init s"
    and ready: "\<not> bsy_flag h (hal_log s @ HAL_RCC_FLASH_CLK_ENABLE # replicate n HAL_FLASH_GET_FLAG_BSY)"
    and unlock: "\<forall>log. hal_ok h log HAL_FLASH_Unlock"
  shows "\<exists>s'. flash_init cfg h s = Some (eFLASH_OK cfg, s') \<and>
              flash_init cfg h s' = Some (eFLASH_OK cfg, s') \<and>
              flash_is_init cfg True s' = Return (eFLASH_OK cfg, Some True) s' \<and>
              flash_deinit cfg h s = (eFLASH_OK cfg, s) \<and>
              flash_is_init cfg True s = Return (eFLASH_OK cfg, Some False) s"
proof -
  let ?c = "hal_do HAL_RCC_FLASH_CLK_ENABLE s"
  have "\<not> bsy_flag h (hal_log ?c @ replicate n HAL_FLASH_GET_FLAG_BSY)"
    using ready by (simp add: hal_do_def)
  then obtain k where w: "wait_flash_ready h ?c =
      Some (?c\<lparr>hal_log := hal_log ?c @ replicate (Suc k) HAL_FLASH_GET_FLAG_BSY\<rparr>)"
    using wait_flash_ready_returns by blast
  let ?w = "?c\<lparr>hal_log := hal_log ?c @ replicate (Suc k) HAL_FLASH_GET_FLAG_BSY\<rparr>"
  let ?s1 = "(hal_do HAL_FLASH_Unlock ?w)\<lparr>gb_is_init := True\<rparr>"
  have i1: "flash_init cfg h s = Some (eFLASH_OK cfg, ?s1)"
    using fresh unlock by (simp add: flash_init_def w)
  have g: "gb_is_init ?s1" by simp
  then have i2: "flash_init cfg h ?s1 = Some (eFLASH_OK cfg, ?s1)"
    by (simp add: flash_init_def)
  have q1: "flash_is_init cfg True ?s1 = Return (eFLASH_OK cfg, Some True) ?s1"
    by (simp add: flash_is_init_def FLASH_ASSERT_def)
  have d: "flash_deinit cfg h s = (eFLASH_OK cfg, s)"
    using fresh by (simp add: flash_deinit_def)
  have q0: "flash_is_init cfg True s = Return (eFLASH_OK cfg, Some False) s"
    using fresh by (simp add: flash_is_init_def FLASH_ASSERT_def)
  from i1 i2 q1 d q0 show ?thesis by blast
qed

theorem init_twice_deinit_uninitialised_witness:
  "\<exists>s'. flash_init cfg_single hal_good s_reset = Some (eFLASH_OK cfg_single, s') \<and>
        flash_init cfg_single hal_good s' = Some (eFLASH_OK cfg_single, s') \<and>
        flash_is_init cfg_single True s' = Return (eFLASH_OK cfg_single, Some True) s' \<and>
        flash_deinit cfg_single hal_good s_reset = (eFLASH_OK cfg_single, s_reset) \<and>
        flash_is_init cfg_single True s_reset = Return (eFLASH_OK cfg_single, Some False) s_reset"
proof -
  have a: "\<not> gb_is_init s_reset" by (simp add: s_reset_def)
  have b: "\<not> bsy_flag hal_good
      (hal_log s_reset @ HAL_RCC_FLASH_CLK_ENABLE # replicate 2 HAL_FLASH_GET_FLAG_BSY)"
    by (simp add: s_reset_def hal_good_def)
  have c: "\<forall>log. hal_ok hal_good log HAL_FLASH_Unlock" by (simp add: hal_good_def)
  show ?thesis by (rule init_twice_deinit_uninitialised [OF a b c])
qed

text \<open>
  Claim C9. When the unlock fails, \<open>flash_init\<close> returns \<open>eFLASH_ERROR\<close> and the flag stays
  false; when the lock fails, \<open>flash_deinit\<close> returns \<open>eFLASH_ERROR\<close> and the flag stays
  true.
\<close>

theorem init_deinit_failure_keeps_flag:
  "(\<not> gb_is_init s \<and>
    \<not> bsy_flag h (hal_log s @ HAL_RCC_FLASH_CLK_ENABLE # replicate n HAL_FLASH_GET_FLAG_BSY) \<and>
    (\<forall>log. \<not> hal_ok h log HAL_FLASH_Unlock) \<longrightarrow>
      (\<exists>s'. flash_init cfg h s = Some (eFLASH_ERROR cfg, s') \<and> \<not> gb_is_init s'))
   \<and> (gb_is_init t \<and> \<not> hal_ok h (hal_log t) HAL_FLASH_Lock \<longrightarrow>
      flash_deinit cfg h t = (eFLASH_ERROR cfg, hal_do HAL_FLASH_Lock t) \<and>
      gb_is_init (hal_do HAL_FLASH_Lock t))"
proof (intro conjI impI)
  assume h: "\<not> gb_is_init s \<and>
    \<not> bsy_flag h (hal_log s @ HAL_RCC_FLASH_CLK_ENABLE # replicate n HAL_FLASH_GET_FLAG_BSY) \<and>
    (\<forall>log. \<not> hal_ok h log HAL_FLASH_Unlock)"
  let ?c = "hal_do HAL_RCC_FLASH_CLK_ENABLE s"
  have "\<not> bsy_flag h (hal_log ?c @ replicate n HAL_FLASH_GET_FLAG_BSY)"
    using h by (simp add: hal_do_def)
  then obtain k where w: "wait_flash_ready h ?c =
      Some (?c\<lparr>hal_log := hal_log ?c @ replicate (Suc k) HAL_FLASH_GET_FLAG_BSY\<rparr>)"
    using wait_flash_ready_returns by blast
  let ?w = "?c\<lparr>hal_log := hal_log ?c @ replicate (Suc k) HAL_FLASH_GET_FLAG_BSY\<rparr>"
  have "flash_init cfg h s = Some (eFLASH_ERROR cfg, hal_do HAL_FLASH_Unlock ?w)"
    using h by (simp add: flash_init_def w)
  moreover have "\<not> gb_is_init (hal_do HAL_FLASH_Unlock ?w)"
    using h by (simp add: hal_do_def)
  ultimately show "\<exists>s'. flash_init cfg h s = Some (eFLASH_ERROR cfg, s') \<and> \<not> gb_is_init s'"
    by blast
next
  assume h: "gb_is_init t \<and> \<not> hal_ok h (hal_log t) HAL_FLASH_Lock"
  then show "flash_deinit cfg h t = (eFLASH_ERROR cfg, hal_do HAL_FLASH_Lock t)"
    by (simp add: flash_deinit_def)
  show "gb_is_init (hal_do HAL_FLASH_Lock t)" using h by (simp add: hal_do_def)
qed

theorem init_deinit_failure_keeps_flag_witness:
  "(\<exists>s'. flash_init cfg_single hal_lock_fails s_reset = Some (eFLASH_ERROR cfg_single, s') \<and>
         \<not> gb_is_init s')
   \<and> flash_deinit cfg_single hal_lock_fails s_ready =
        (1, \<lparr>gb_is_init = True, hal_log = [HAL_FLASH_Lock]\<rparr>)"
proof -
  have a: "\<not> gb_is_init s_reset \<and>
    \<not> bsy_flag hal_lock_fails
        (hal_log s_reset @ HAL_RCC_FLASH_CLK_ENABLE # replicate 0 HAL_FLASH_GET_FLAG_BSY) \<and>
    (\<forall>log. \<not> hal_ok hal_lock_fails log HAL_FLASH_Unlock)"
    by (simp add: s_reset_def hal_lock_fails_def)
  have b: "gb_is_init s_ready \<and> \<not> hal_ok hal_lock_fails (hal_log s_ready) HAL_FLASH_Lock"
    by (simp add: s_ready_def hal_lock_fails_def)
  note t = init_deinit_failure_keeps_flag [where s = s_reset and h = hal_lock_fails and n = 0 and cfg = cfg_single
      and t = s_ready]
  from t [THEN conjunct1, rule_format, OF a] t [THEN conjunct2, rule_format, OF b]
  show ?thesis by (simp add: hal_do_def s_ready_def cfg_single_def)
qed

subsection \<open>Calls before initialisation\<close>

text \<open>
  Claim C8, as stated, fails in a build with assertions enabled: the entry points assert
  \<^verbatim>\<open>true == gb_is_init\<close> before they test it, so a call before initialisation stops at the
  assertion and returns no status.
\<close>

theorem call_before_init_assert_counterexample:
  "\<not> gb_is_init s_reset \<and>
   flash_erase cfg_debug hal_good 0x08000000 0x800 s_reset = Assert_failed s_reset \<and>
   flash_write cfg_debug hal_good 0x08000000 0x800 (Some zero_buffer) s_reset = Some (Assert_failed s_reset) \<and>
   flash_read cfg_debug hal_good 0x08000000 0x800 (Some zero_buffer) s_reset = Some (Assert_failed s_reset)"
  by (simp add: s_reset_def cfg_debug_def cfg_single_def flash_erase_def flash_write_def
      flash_read_def FLASH_ASSERT_def)

text \<open>
  Claim C8, amended. For every read, write or erase call made while the driver is not
  initialised, no hardware operation is performed (the state, with its log of hardware
  events, is unchanged); the call returns \<open>eFLASH_ERROR\<close> when assertions are compiled out,
  and stops at the failed assertion when they are enabled.
\<close>

theorem call_before_init_no_hardware:
  assumes "\<not> gb_is_init s"
  shows "flash_erase cfg h addr sz s =
           (if FLASH_CFG_ASSERT_EN cfg then Assert_failed s else Return (eFLASH_ERROR cfg) s) \<and>
         flash_write cfg h addr sz p_data s =
           Some (if FLASH_CFG_ASSERT_EN cfg then Assert_failed s else Return (eFLASH_ERROR cfg) s) \<and>
         flash_read cfg h addr sz p_data s =
           Some (if FLASH_CFG_ASSERT_EN cfg then Assert_failed s
                 else Return (eFLASH_ERROR cfg, p_data) s)"
  using assms by (simp add: flash_erase_def flash_write_def flash_read_def FLASH_ASSERT_def)

theorem call_before_init_no_hardware_witness:
  "flash_erase cfg_single hal_good 0x08000000 0x800 s_reset = Return 1 s_reset \<and>
   flash_write cfg_single hal_good 0x08000000 0x800 None s_reset = Some (Return 1 s_reset) \<and>
   flash_read cfg_single hal_good 0x08000000 0x800 None s_reset = Some (Return (1, None) s_reset)"
proof -
  have a: "\<not> gb_is_init s_reset" by (simp add: s_reset_def)
  have b: "\<not> FLASH_CFG_ASSERT_EN cfg_single" "eFLASH_ERROR cfg_single = 1"
    by (simp_all add: cfg_single_def)
  show ?thesis
    using call_before_init_no_hardware [OF a, of cfg_single hal_good "0x08000000" "0x800" None] by (simp add: b)
qed

subsection \<open>The region check\<close>

text \<open>
  Claim C1. For every erase, write or read call, the region validation accepts the request
  if and only if \<open>addr \<ge> region.start_address\<close> and
  \<open>addr + size \<le> region.start_address + region.size_bytes\<close>. The code does not: its check,
  made of the two macros that together define the user flash region, compares the size
  with the size of the region and never the end of the section with the end of the
  region. With the region of the template, \<open>[0x0801F000, 0x0801F800)\<close>, the erase of
  \<open>[0x0801F800, 0x0801F800 + 0x800)\<close> lies wholly outside the region, is accepted and
  erases page 63. In the region \<open>[0x08000000, 0x08040000)\<close> the request at \<open>0x08000001\<close> of
  size \<open>0x40000\<close> ends one byte past the region and is erased, 129 pages of 128. In the
  dual-bank part with assertions enabled, the erase of \<open>[0x08040800, 0x08080800)\<close> ends
  \<open>0x800\<close> bytes past the region and mass-erases bank 2, page 0 of it included.
\<close>

theorem region_check_misses_end:
  "unat (FLASH_CFG_START_ADDR cfg_template) + unat (FLASH_CFG_SIZE_BYTE cfg_template)
      \<le> unat (0x0801F800 :: uint32_t) \<and>
   \<not> region_validate cfg_template 0x0801F800 0x800 \<and>
   flash_region_check cfg_template 0x0801F800 0x800 \<and>
   flash_erase cfg_template hal_good 0x0801F800 0x800 s_ready =
     Return (eFLASH_OK cfg_template) \<lparr>gb_is_init = True, hal_log = [HAL_FLASHEx_Erase
        \<lparr>TypeErase = FLASH_TYPEERASE_PAGES, Banks = FLASH_BANK_1, Page = 63, NbPages = 1\<rparr>]\<rparr> \<and>
   unat (0x08000001 :: uint32_t) + unat (0x40000 :: uint32_t) =
     unat (FLASH_CFG_START_ADDR cfg_single) + unat (FLASH_CFG_SIZE_BYTE cfg_single) + 1 \<and>
   \<not> region_validate cfg_single 0x08000001 0x40000 \<and>
   flash_region_check cfg_single 0x08000001 0x40000 \<and>
   flash_erase cfg_single hal_good 0x08000001 0x40000 s_ready =
     Return (eFLASH_OK cfg_single) \<lparr>gb_is_init = True, hal_log = [HAL_FLASHEx_Erase
        \<lparr>TypeErase = FLASH_TYPEERASE_PAGES, Banks = FLASH_BANK_1, Page = 0, NbPages = 129\<rparr>]\<rparr> \<and>
   \<not> region_validate cfg_dual 0x08040800 0x40000 \<and>
   flash_erase (cfg_dual \<lparr>FLASH_CFG_ASSERT_EN := True\<rparr>) hal_good 0x08040800 0x40000 s_ready =
     Return (eFLASH_OK cfg_dual) \<lparr>gb_is_init = True, hal_log = [HAL_FLASHEx_Erase
        \<lparr>TypeErase = FLASH_TYPEERASE_MASSERASE, Banks = FLASH_BANK_2, Page = 0, NbPages = 0\<rparr>]\<rparr>"
  by (simp add: cfg_template_def cfg_single_def cfg_dual_def s_ready_def hal_good_def
      region_validate_def flash_region_check_def flash_erase_def flash_erase_single_bank_def
      flash_erase_dual_bank_def erase_bank_def bank_data_split_def setup_flash_erase_def
      gu32_flash_base_def flash_erase_zero_def flash_count_page_def FLASH_ASSERT_def hal_do_def
      Let_def)

text \<open>
  What the check of the three entry points does test: the request is accepted if and only
  if \<open>addr \<ge> FLASH_CFG_START_ADDR\<close> and \<open>size \<le> FLASH_CFG_SIZE_BYTE\<close>. Every request that
  lies inside the region is accepted and every request that starts below it is rejected.
  A rejected request does nothing to the hardware and returns \<open>eFLASH_ERROR\<close> (or stops at
  the assertion, when assertions are enabled); an accepted one goes on to the erase, to
  the write loop or to the read loop.
\<close>

lemma region_check_accepts:
  "flash_region_check cfg addr sz =
      (FLASH_CFG_START_ADDR cfg \<le> addr \<and> sz \<le> FLASH_CFG_SIZE_BYTE cfg)
   \<and> (region_validate cfg addr sz \<longrightarrow> flash_region_check cfg addr sz)
   \<and> (addr < FLASH_CFG_START_ADDR cfg \<longrightarrow> \<not> flash_region_check cfg addr sz)
   \<and> (gb_is_init s \<longrightarrow>
        flash_erase cfg h addr sz s =
          (if flash_region_check cfg addr sz then
             (if \<not> FLASH_CFG_DUAL_BANK_MODE_EN cfg then flash_erase_single_bank cfg h addr sz s
              else flash_erase_dual_bank cfg h addr sz s)
           else if FLASH_CFG_ASSERT_EN cfg then Assert_failed s
           else Return (eFLASH_ERROR cfg) s))
   \<and> (gb_is_init s \<longrightarrow>
        flash_write cfg h addr sz (Some p_data) s =
          (if flash_region_check cfg addr sz then
             (case write_loop cfg h addr sz p_data 0 s of
                None \<Rightarrow> None | Some (status, s') \<Rightarrow> Some (Return status s'))
           else if FLASH_CFG_ASSERT_EN cfg then Some (Assert_failed s)
           else Some (Return (eFLASH_ERROR cfg) s)))
   \<and> (gb_is_init s \<longrightarrow>
        flash_read cfg h addr sz (Some p_data) s =
          (if flash_region_check cfg addr sz then
             (case read_loop h addr sz p_data 0 s of
                None \<Rightarrow> None
              | Some (p_data', s') \<Rightarrow> Some (Return (eFLASH_OK cfg, Some p_data') s'))
           else if FLASH_CFG_ASSERT_EN cfg then Some (Assert_failed s)
           else Some (Return (eFLASH_ERROR cfg, Some p_data) s)))"
proof (intro conjI impI)
  show "flash_region_check cfg addr sz =
      (FLASH_CFG_START_ADDR cfg \<le> addr \<and> sz \<le> FLASH_CFG_SIZE_BYTE cfg)"
    by (simp add: flash_region_check_def)
next
  assume "region_validate cfg addr sz"
  then show "flash_region_check cfg addr sz"
    by (simp add: region_validate_def flash_region_check_def word_le_nat_alt)
next
  assume "addr < FLASH_CFG_START_ADDR cfg"
  then show "\<not> flash_region_check cfg addr sz"
    by (simp add: flash_region_check_def not_le)
next
  assume "gb_is_init s"
  then show "flash_erase cfg h addr sz s =
          (if flash_region_check cfg addr sz then
             (if \<not> FLASH_CFG_DUAL_BANK_MODE_EN cfg then flash_erase_single_bank cfg h addr sz s
              else flash_erase_dual_bank cfg h addr sz s)
           else if FLASH_CFG_ASSERT_EN cfg then Assert_failed s
           else Return (eFLASH_ERROR cfg) s)"
    by (simp add: flash_erase_def FLASH_ASSERT_def)
next
  assume "gb_is_init s"
  then show "flash_write cfg h addr sz (Some p_data) s =
          (if flash_region_check cfg addr sz then
             (case write_loop cfg h addr sz p_data 0 s of
                None \<Rightarrow> None | Some (status, s') \<Rightarrow> Some (Return status s'))
           else if FLASH_CFG_ASSERT_EN cfg then Some (Assert_failed s)
           else Some (Return (eFLASH_ERROR cfg) s))"
    by (simp add: flash_write_def FLASH_ASSERT_def)
next
  assume "gb_is_init s"
  then show "flash_read cfg h addr sz (Some p_data) s =
          (if flash_region_check cfg addr sz then
             (case read_loop h addr sz p_data 0 s of
                None \<Rightarrow> None
              | Some (p_data', s') \<Rightarrow> Some (Return (eFLASH_OK cfg, Some p_data') s'))
           else if FLASH_CFG_ASSERT_EN cfg then Some (Assert_failed s)
           else Some (Return (eFLASH_ERROR cfg, Some p_data) s))"
    by (simp add: flash_read_def FLASH_ASSERT_def)
qed

lemma region_check_accepts_witness:
  "flash_region_check cfg_single 0x08000000 0x40000 \<and>
   \<not> flash_region_check cfg_single 0x07FFFFFF 0x800 \<and>
   flash_erase cfg_single hal_good 0x07FFFFFF 0x800 s_ready = Return 1 s_ready \<and>
   flash_write cfg_single hal_good 0x07FFFFFF 0x800 (Some zero_buffer) s_ready = Some (Return 1 s_ready) \<and>
   flash_read cfg_single hal_good 0x08000000 0x40001 (Some zero_buffer) s_ready =
     Some (Return (1, Some zero_buffer) s_ready)"
proof -
  have v: "region_validate cfg_single 0x08000000 0x40000"
    by (simp add: region_validate_def cfg_single_def)
  have l: "0x07FFFFFF < FLASH_CFG_START_ADDR cfg_single" by (simp add: cfg_single_def)
  have g: "gb_is_init s_ready" by (simp add: s_ready_def)
  have k: "\<not> flash_region_check cfg_single 0x08000000 0x40001"
    by (simp add: flash_region_check_def cfg_single_def)
  have c: "\<not> FLASH_CFG_ASSERT_EN cfg_single" "eFLASH_ERROR cfg_single = 1"
    by (simp_all add: cfg_single_def)
  note t1 = region_check_accepts [where cfg = cfg_single and addr = "0x08000000" and sz = "0x40000"
      and s = s_ready and h = hal_good and p_data = zero_buffer]
  note t2 = region_check_accepts [where cfg = cfg_single and addr = "0x07FFFFFF" and sz = "0x800"
      and s = s_ready and h = hal_good and p_data = zero_buffer]
  note t3 = region_check_accepts [where cfg = cfg_single and addr = "0x08000000" and sz = "0x40001"
      and s = s_ready and h = hal_good and p_data = zero_buffer]
  have a1: "flash_region_check cfg_single 0x08000000 0x40000"
    using t1 v by blast
  have a2: "\<not> flash_region_check cfg_single 0x07FFFFFF 0x800"
    using t2 l by blast
  have a3: "flash_erase cfg_single hal_good 0x07FFFFFF 0x800 s_ready = Return 1 s_ready"
    using t2 g a2 c by simp
  have a4: "flash_write cfg_single hal_good 0x07FFFFFF 0x800 (Some zero_buffer) s_ready =
      Some (Return 1 s_ready)"
    using t2 g a2 c by simp
  have a5: "flash_read cfg_single hal_good 0x08000000 0x40001 (Some zero_buffer) s_ready =
     Some (Return (1, Some zero_buffer) s_ready)"
    using t3 g k c by simp
  from a1 a2 a3 a4 a5 show ?thesis by blast
qed


end
